theory Spec2Isabelle
  imports Main "HOL-Library.Sublist"
begin

section \<open>The Firecrawl tool node (nodes/Firecrawl/FirecrawlTool.node.ts)\<close>

text \<open>
  The node builds one callable tool for an AI agent. This theory embeds the two functions
  of the file, \<^verbatim>\<open>makeFirecrawlRequest\<close> and \<^verbatim>\<open>supplyData\<close> (with its inner
  \<^verbatim>\<open>createToolHandler\<close>), over an explicit model of what they touch: JSON data, the
  host's credential store, HTTP helper and input/output tracking, thrown values and the
  constructor of \<^verbatim>\<open>NodeOperationError\<close>, and the zod schemas handed to the tool.
\<close>

subsection \<open>Decimal digits\<close>

definition digit_char :: "nat \<Rightarrow> char" where
  "digit_char n = ''0123456789'' ! (n mod 10)"

text \<open>The decimal digits of a natural number, without leading zeros.\<close>

fun digits :: "nat \<Rightarrow> string" where
  "digits n = (if n < 10 then [digit_char n] else digits (n div 10) @ [digit_char (n mod 10)])"

declare digits.simps [simp del]

definition is_digit :: "char \<Rightarrow> bool" where
  "is_digit c = (48 \<le> (of_char c :: nat) \<and> (of_char c :: nat) \<le> 57)"

definition digit_value :: "char \<Rightarrow> nat" where
  "digit_value c = of_char c - 48"

definition digits_value :: "string \<Rightarrow> nat" where
  "digits_value ds = foldl (\<lambda>a c. 10 * a + digit_value c) 0 ds"

subsection \<open>JSON data\<close>

text \<open>
  A JavaScript number is a double. A finite double other than zero is kept as its sign
  and the shortest decimal that names it, which is what \<^verbatim>\<open>Number::toString\<close> works from:
  \<open>Finite negative s e\<close> is \<open>s\<close> times ten to the \<open>e\<close>, negated when \<open>negative\<close>, where
  \<open>s\<close> is positive and does not end in the digit 0. The two zeros and the two infinities
  are values of their own. \<^verbatim>\<open>NaN\<close> is left out: \<^verbatim>\<open>JSON.parse\<close> never gives it and
  \<^verbatim>\<open>z.number()\<close> does not accept it.
\<close>

datatype number =
    Finite bool nat int
  | Zero
  | NegZero
  | PosInfinity
  | NegInfinity

text \<open>
  An \<^verbatim>\<open>IDataObject\<close> is a plain JavaScript object holding JSON data. An object is the
  list of its own properties in property order. Strings are byte strings (a character
  outside ASCII is the bytes of its UTF-8 form). \<^verbatim>\<open>undefined\<close> is not a member: a
  property that is absent is absent from the list.
\<close>

datatype json =
    JNull
  | JBool bool
  | JNum number
  | JStr string
  | JArr "json list"
  | JObj "(string \<times> json) list"

type_synonym IDataObject = "(string \<times> json) list"

text \<open>Reading a property: \<^verbatim>\<open>obj[k]\<close>, \<open>None\<close> for \<^verbatim>\<open>undefined\<close>.\<close>

definition get_prop :: "IDataObject \<Rightarrow> string \<Rightarrow> json option" where
  "get_prop obj k = map_of obj k"

text \<open>
  Property order. A key that is an array index (the decimal form, without leading zeros,
  of an integer below 4294967295) is listed before every other key, the array indices
  in ascending order; the other keys follow in the order of their creation.
\<close>

definition is_array_index :: "string \<Rightarrow> bool" where
  "is_array_index k =
     (k \<noteq> [] \<and> list_all is_digit k \<and> (if hd k = CHR ''0'' then k = ''0'' else True)
      \<and> digits_value k < 4294967295)"

text \<open>Whether the existing key \<open>k'\<close> stays in front of a key \<open>k\<close> that is new.\<close>

definition stays_before :: "string \<Rightarrow> string \<Rightarrow> bool" where
  "stays_before k k' =
     (if is_array_index k then is_array_index k' \<and> digits_value k' < digits_value k else True)"

text \<open>Keys that stand in property order.\<close>

fun ordered_keys :: "string list \<Rightarrow> bool" where
  "ordered_keys [] = True"
| "ordered_keys [k] = True"
| "ordered_keys (k # k' # ks) =
     ((if is_array_index k' then is_array_index k \<and> digits_value k < digits_value k' else True)
      \<and> ordered_keys (k' # ks))"

text \<open>
  Writing a property, \<^verbatim>\<open>obj[k] = v\<close>: an existing property keeps its place and takes
  the new value, a new one goes to its place in the property order.
\<close>

fun replace_prop :: "string \<Rightarrow> json \<Rightarrow> IDataObject \<Rightarrow> IDataObject" where
  "replace_prop k v [] = []"
| "replace_prop k v ((k', v') # rest) =
     (if k' = k then (k', v) # rest else (k', v') # replace_prop k v rest)"

definition set_prop :: "string \<Rightarrow> json \<Rightarrow> IDataObject \<Rightarrow> IDataObject" where
  "set_prop k v obj =
     (if k \<in> set (map fst obj) then replace_prop k v obj
      else takeWhile (\<lambda>p. stays_before k (fst p)) obj @ (k, v)
             # dropWhile (\<lambda>p. stays_before k (fst p)) obj)"

text \<open>
  The object spread \<^verbatim>\<open>{ ...target, ...src }\<close>: every property of \<open>src\<close>, in order,
  is written into the object built so far.
\<close>

definition spread :: "IDataObject \<Rightarrow> IDataObject \<Rightarrow> IDataObject" where
  "spread target src = foldl (\<lambda>obj (k, v). set_prop k v obj) target src"

subsection \<open>What the model takes from outside\<close>

text \<open>
  Three things of the JavaScript engine and of the library \<^verbatim>\<open>n8n-workflow\<close> are
  parameters of the model, so that what is proved holds whatever they are:
  \<^item> \<open>ToNumber negative s e\<close>, the double nearest to the decimal \<open>s\<close> times ten to the
    \<open>e\<close> (\<open>s\<close> positive, not ending in 0), which is how a number literal gets its value;
  \<^item> \<open>toUpperCase\<close>, \<^verbatim>\<open>String.prototype.toUpperCase\<close>;
  \<^item> \<open>COMMON_ERRORS\<close>, the table of \<^verbatim>\<open>n8n-workflow\<close> that maps an error code to a
    descriptive message, in the order of its entries.
\<close>

record runtime =
  ToNumber :: "bool \<Rightarrow> nat \<Rightarrow> int \<Rightarrow> number"
  toUpperCase :: "string \<Rightarrow> string"
  COMMON_ERRORS :: "(string \<times> string) list"

subsection \<open>JSON.stringify\<close>

text \<open>
  \<^verbatim>\<open>JSON.stringify(value, null, space)\<close> as ECMAScript defines it on JSON data:
  \<open>QuoteJSONString\<close>, \<open>SerializeJSONProperty\<close> with its \<open>gap\<close> and current
  \<open>indent\<close>, and the gap made of \<open>min 10 space\<close> blanks. With no third argument,
  as in \<^verbatim>\<open>JSON.stringify(input)\<close>, the gap is empty: that is \<open>space = 0\<close>.
\<close>

definition hex_digit :: "nat \<Rightarrow> char" where
  "hex_digit n = ''0123456789abcdef'' ! (n mod 16)"

definition quote_char :: "char \<Rightarrow> string" where
  "quote_char c =
     (if c = CHR 0x08 then [CHR 0x5C, CHR ''b'']
      else if c = CHR 0x09 then [CHR 0x5C, CHR ''t'']
      else if c = CHR 0x0A then [CHR 0x5C, CHR ''n'']
      else if c = CHR 0x0C then [CHR 0x5C, CHR ''f'']
      else if c = CHR 0x0D then [CHR 0x5C, CHR ''r'']
      else if c = CHR 0x22 then [CHR 0x5C, CHR 0x22]
      else if c = CHR 0x5C then [CHR 0x5C, CHR 0x5C]
      else if (of_char c :: nat) < 0x20
        then [CHR 0x5C, CHR ''u'', CHR ''0'', CHR ''0'',
              hex_digit (of_char c div 16), hex_digit (of_char c mod 16)]
      else [c])"

definition QuoteJSONString :: "string \<Rightarrow> string" where
  "QuoteJSONString s = CHR 0x22 # concat (map quote_char s) @ [CHR 0x22]"

text \<open>
  \<^verbatim>\<open>Number::toString\<close> in radix 10. For a finite number other than zero, \<open>k\<close> is the
  number of digits of \<open>s\<close> and \<open>n = k + e\<close> the position of the decimal point: the digits
  are padded with zeros, split by a point or preceded by \<^verbatim>\<open>0.\<close> and zeros when \<open>n\<close> is
  between -5 and 21, and written with an exponent otherwise.
\<close>

definition NumberToString :: "number \<Rightarrow> string" where
  "NumberToString x =
     (case x of
        Zero \<Rightarrow> ''0''
      | NegZero \<Rightarrow> ''0''
      | PosInfinity \<Rightarrow> ''Infinity''
      | NegInfinity \<Rightarrow> ''-Infinity''
      | Finite negative s e \<Rightarrow>
          (if negative then ''-'' else []) @
          (let ds = digits s;
               k = int (length ds);
               n = k + e
           in if k \<le> n \<and> n \<le> 21 then ds @ replicate (nat (n - k)) CHR ''0''
              else if 0 < n \<and> n \<le> 21 then take (nat n) ds @ ''.'' @ drop (nat n) ds
              else if - 6 < n \<and> n \<le> 0 then ''0.'' @ replicate (nat (- n)) CHR ''0'' @ ds
              else (let sign = (if n - 1 < 0 then ''-'' else ''+'');
                        exponent = digits (nat \<bar>n - 1\<bar>)
                    in if k = 1 then ds @ ''e'' @ sign @ exponent
                       else take 1 ds @ ''.'' @ drop 1 ds @ ''e'' @ sign @ exponent)))"

text \<open>A number that is not finite is rendered as \<^verbatim>\<open>null\<close>.\<close>

definition is_finite :: "number \<Rightarrow> bool" where
  "is_finite x = (x \<noteq> PosInfinity \<and> x \<noteq> NegInfinity)"

fun join :: "string \<Rightarrow> string list \<Rightarrow> string" where
  "join sep [] = []"
| "join sep [x] = x"
| "join sep (x # y # ys) = x @ sep @ join sep (y # ys)"

fun SerializeJSONProperty :: "string \<Rightarrow> string \<Rightarrow> json \<Rightarrow> string" where
  "SerializeJSONProperty gap indent JNull = ''null''"
| "SerializeJSONProperty gap indent (JBool b) = (if b then ''true'' else ''false'')"
| "SerializeJSONProperty gap indent (JNum x) = (if is_finite x then NumberToString x else ''null'')"
| "SerializeJSONProperty gap indent (JStr s) = QuoteJSONString s"
| "SerializeJSONProperty gap indent (JArr xs) =
     (let stepback = indent;
          indent' = indent @ gap;
          partial = map (SerializeJSONProperty gap indent') xs
      in if partial = [] then ''[]''
         else if gap = [] then ''['' @ join '','' partial @ '']''
         else ''['' @ [CHR 0x0A] @ indent' @ join ('','' @ [CHR 0x0A] @ indent') partial
                @ [CHR 0x0A] @ stepback @ '']'')"
| "SerializeJSONProperty gap indent (JObj kvs) =
     (let stepback = indent;
          indent' = indent @ gap;
          partial = map (\<lambda>(k, v). QuoteJSONString k @ '':'' @ (if gap = [] then [] else '' '')
                                @ SerializeJSONProperty gap indent' v) kvs
      in if partial = [] then ''{}''
         else if gap = [] then ''{'' @ join '','' partial @ ''}''
         else ''{'' @ [CHR 0x0A] @ indent' @ join ('','' @ [CHR 0x0A] @ indent') partial
                @ [CHR 0x0A] @ stepback @ ''}'')"

definition JSON_stringify :: "json \<Rightarrow> nat \<Rightarrow> string" where
  "JSON_stringify v space = SerializeJSONProperty (replicate (min 10 space) CHR '' '') [] v"

subsection \<open>JSON.parse\<close>

text \<open>
  \<^verbatim>\<open>JSON.parse(text)\<close> on the same data: \<open>None\<close> is the \<^verbatim>\<open>SyntaxError\<close> it
  throws. White space is blank, tab, line feed and carriage return.
\<close>

definition is_ws :: "char \<Rightarrow> bool" where
  "is_ws c = (c = CHR '' '' \<or> c = CHR 0x09 \<or> c = CHR 0x0A \<or> c = CHR 0x0D)"

definition skip_ws :: "string \<Rightarrow> string" where
  "skip_ws s = dropWhile is_ws s"

text \<open>Hexadecimal digits, in either case.\<close>

definition hex_value :: "char \<Rightarrow> nat option" where
  "hex_value c =
     (let n = (of_char c :: nat)
      in if 48 \<le> n \<and> n \<le> 57 then Some (n - 48)
         else if 97 \<le> n \<and> n \<le> 102 then Some (n - 87)
         else if 65 \<le> n \<and> n \<le> 70 then Some (n - 55)
         else None)"

definition hex4_value :: "char \<Rightarrow> char \<Rightarrow> char \<Rightarrow> char \<Rightarrow> nat option" where
  "hex4_value a b c d =
     (case (hex_value a, hex_value b, hex_value c, hex_value d) of
        (Some x, Some y, Some z, Some w) \<Rightarrow> Some (((x * 16 + y) * 16 + z) * 16 + w)
      | _ \<Rightarrow> None)"

text \<open>
  The bytes of a code point. A surrogate is no code point: an escaped pair of surrogates
  names the code point the pair stands for, and a surrogate without its partner has no
  bytes and is not part of this model.
\<close>

definition utf8_encode :: "nat \<Rightarrow> string option" where
  "utf8_encode n =
     (if n < 0x80 then Some [char_of n]
      else if n < 0x800 then Some [char_of (0xC0 + n div 64), char_of (0x80 + n mod 64)]
      else if 0xD800 \<le> n \<and> n < 0xE000 then None
      else if n < 0x10000 then
        Some [char_of (0xE0 + n div 4096), char_of (0x80 + n div 64 mod 64),
              char_of (0x80 + n mod 64)]
      else
        Some [char_of (0xF0 + n div 262144), char_of (0x80 + n div 4096 mod 64),
              char_of (0x80 + n div 64 mod 64), char_of (0x80 + n mod 64)])"

definition is_high_surrogate :: "nat \<Rightarrow> bool" where
  "is_high_surrogate n = (0xD800 \<le> n \<and> n < 0xDC00)"

definition is_low_surrogate :: "nat \<Rightarrow> bool" where
  "is_low_surrogate n = (0xDC00 \<le> n \<and> n < 0xE000)"

definition surrogate_pair :: "nat \<Rightarrow> nat \<Rightarrow> nat" where
  "surrogate_pair hi lo = 0x10000 + (hi - 0xD800) * 1024 + (lo - 0xDC00)"

text \<open>The one-letter escapes.\<close>

definition unescape :: "char \<Rightarrow> char option" where
  "unescape e =
     (if e = CHR 0x22 then Some (CHR 0x22)
      else if e = CHR 0x5C then Some (CHR 0x5C)
      else if e = CHR ''/'' then Some (CHR ''/'')
      else if e = CHR ''b'' then Some (CHR 0x08)
      else if e = CHR ''f'' then Some (CHR 0x0C)
      else if e = CHR ''n'' then Some (CHR 0x0A)
      else if e = CHR ''r'' then Some (CHR 0x0D)
      else if e = CHR ''t'' then Some (CHR 0x09)
      else None)"

text \<open>
  The characters of a string after its opening quote, up to the closing quote: the string
  and the text after it.
\<close>

fun parse_chars :: "string \<Rightarrow> (string \<times> string) option" where
  "parse_chars [] = None"
| "parse_chars (c # cs) =
     (if c = CHR 0x22 then Some ([], cs)
      else if c = CHR 0x5C then
        (case cs of
           [] \<Rightarrow> None
         | e # cs' \<Rightarrow>
             if e = CHR ''u'' then
               (case cs' of
                  h1 # h2 # h3 # h4 # cs'' \<Rightarrow>
                    (case hex4_value h1 h2 h3 h4 of
                       None \<Rightarrow> None
                     | Some n \<Rightarrow>
                         if is_high_surrogate n then
                           (case cs'' of
                              b # u # l1 # l2 # l3 # l4 # cs3 \<Rightarrow>
                                if b = CHR 0x5C \<and> u = CHR ''u'' then
                                  (case hex4_value l1 l2 l3 l4 of
                                     None \<Rightarrow> None
                                   | Some m \<Rightarrow>
                                       if is_low_surrogate m then
                                         (case utf8_encode (surrogate_pair n m) of
                                            None \<Rightarrow> None
                                          | Some bs \<Rightarrow>
                                              (case parse_chars cs3 of
                                                 None \<Rightarrow> None
                                               | Some (s, r) \<Rightarrow> Some (bs @ s, r)))
                                       else None)
                                else None
                            | _ \<Rightarrow> None)
                         else
                           (case utf8_encode n of
                              None \<Rightarrow> None
                            | Some bs \<Rightarrow>
                                (case parse_chars cs'' of
                                   None \<Rightarrow> None
                                 | Some (s, r) \<Rightarrow> Some (bs @ s, r))))
                | _ \<Rightarrow> None)
             else
               (case unescape e of
                  None \<Rightarrow> None
                | Some x \<Rightarrow>
                    (case parse_chars cs' of
                       None \<Rightarrow> None
                     | Some (s, r) \<Rightarrow> Some (x # s, r))))
      else if (of_char c :: nat) < 0x20 then None
      else (case parse_chars cs of None \<Rightarrow> None | Some (s, r) \<Rightarrow> Some (c # s, r)))"

text \<open>
  A number literal: an optional minus sign, the integer digits with no leading zero, an
  optional fraction and an optional exponent. Its value is the digits of the integer part
  and of the fraction, read as one natural number, times ten to the exponent less the
  number of fraction digits. The value 0 is the zero of the literal's sign, any other
  value is stripped of its trailing zeros and handed to \<open>ToNumber\<close>.
\<close>

fun strip_zeros :: "nat \<Rightarrow> int \<Rightarrow> nat \<times> int" where
  "strip_zeros m x =
     (if m \<noteq> 0 \<and> m mod 10 = 0 then strip_zeros (m div 10) (x + 1) else (m, x))"

declare strip_zeros.simps [simp del]

definition to_number :: "runtime \<Rightarrow> bool \<Rightarrow> nat \<Rightarrow> int \<Rightarrow> number" where
  "to_number rt negative m x =
     (if m = 0 then (if negative then NegZero else Zero)
      else (case strip_zeros m x of (s, e) \<Rightarrow> ToNumber rt negative s e))"

text \<open>The digits after a point and the text after them; no point, no digits.\<close>

definition parse_fraction :: "string \<Rightarrow> (string \<times> string) option" where
  "parse_fraction s =
     (case s of
        [] \<Rightarrow> Some ([], s)
      | c # t \<Rightarrow>
          if c = CHR ''.'' then
            (if takeWhile is_digit t = [] then None
             else Some (takeWhile is_digit t, dropWhile is_digit t))
          else Some ([], s))"

text \<open>The exponent after \<^verbatim>\<open>e\<close> or \<^verbatim>\<open>E\<close> and the text after it; no letter, exponent 0.\<close>

definition parse_exponent :: "string \<Rightarrow> (int \<times> string) option" where
  "parse_exponent s =
     (case s of
        [] \<Rightarrow> Some (0, s)
      | c # t \<Rightarrow>
          if c = CHR ''e'' \<or> c = CHR ''E'' then
            (let negative = (case t of [] \<Rightarrow> False | d # u \<Rightarrow> d = CHR ''-'');
                 signed = (case t of [] \<Rightarrow> False | d # u \<Rightarrow> d = CHR ''-'' \<or> d = CHR ''+'');
                 t1 = (if signed then tl t else t);
                 ds = takeWhile is_digit t1
             in if ds = [] then None
                else Some (if negative then - int (digits_value ds) else int (digits_value ds),
                           dropWhile is_digit t1))
          else Some (0, s))"

definition parse_number :: "runtime \<Rightarrow> string \<Rightarrow> (json \<times> string) option" where
  "parse_number rt s =
     (let negative = (case s of [] \<Rightarrow> False | c # cs \<Rightarrow> c = CHR ''-'');
          s1 = (if negative then tl s else s);
          ip = takeWhile is_digit s1;
          r1 = dropWhile is_digit s1
      in if ip = [] then None
         else if 1 < length ip \<and> hd ip = CHR ''0'' then None
         else
           (case parse_fraction r1 of
              None \<Rightarrow> None
            | Some (fp, r2) \<Rightarrow>
                (case parse_exponent r2 of
                   None \<Rightarrow> None
                 | Some (ex, r3) \<Rightarrow>
                     Some (JNum (to_number rt negative (digits_value (ip @ fp))
                                   (ex - int (length fp))), r3))))"

definition parse_literal :: "string \<Rightarrow> json \<Rightarrow> string \<Rightarrow> (json \<times> string) option" where
  "parse_literal lit v s =
     (if take (length lit) s = lit then Some (v, drop (length lit) s) else None)"

text \<open>
  A value, the elements of an array after its opening bracket, and the members of an
  object after its opening brace. Each gives what it read and the text after it. The first
  argument bounds the depth of the calls; \<open>JSON_parse\<close> starts with more than the
  length of the text. The members are written into the object one after the other, so a
  key that stands twice keeps its first place and its last value.
\<close>

fun parse_value :: "runtime \<Rightarrow> nat \<Rightarrow> string \<Rightarrow> (json \<times> string) option"
  and parse_elements :: "runtime \<Rightarrow> nat \<Rightarrow> string \<Rightarrow> (json list \<times> string) option"
  and parse_members :: "runtime \<Rightarrow> nat \<Rightarrow> string \<Rightarrow> ((string \<times> json) list \<times> string) option"
where
  "parse_value rt 0 s = None"
| "parse_value rt (Suc n) s =
     (case skip_ws s of
        [] \<Rightarrow> None
      | c # cs \<Rightarrow>
          if c = CHR ''{'' then
            (case skip_ws cs of
               [] \<Rightarrow> None
             | d # ds \<Rightarrow>
                 if d = CHR ''}'' then Some (JObj [], ds)
                 else (case parse_members rt n (d # ds) of
                         None \<Rightarrow> None
                       | Some (kvs, r) \<Rightarrow> Some (JObj (spread [] kvs), r)))
          else if c = CHR ''['' then
            (case skip_ws cs of
               [] \<Rightarrow> None
             | d # ds \<Rightarrow>
                 if d = CHR '']'' then Some (JArr [], ds)
                 else (case parse_elements rt n (d # ds) of
                         None \<Rightarrow> None
                       | Some (vs, r) \<Rightarrow> Some (JArr vs, r)))
          else if c = CHR 0x22 then
            (case parse_chars cs of None \<Rightarrow> None | Some (x, r) \<Rightarrow> Some (JStr x, r))
          else if c = CHR ''t'' then parse_literal ''true'' (JBool True) (c # cs)
          else if c = CHR ''f'' then parse_literal ''false'' (JBool False) (c # cs)
          else if c = CHR ''n'' then parse_literal ''null'' JNull (c # cs)
          else parse_number rt (c # cs))"
| "parse_elements rt 0 s = None"
| "parse_elements rt (Suc n) s =
     (case parse_value rt n s of
        None \<Rightarrow> None
      | Some (v, r) \<Rightarrow>
          (case skip_ws r of
             [] \<Rightarrow> None
           | c # cs \<Rightarrow>
               if c = CHR '','' then
                 (case parse_elements rt n cs of
                    None \<Rightarrow> None
                  | Some (vs, r') \<Rightarrow> Some (v # vs, r'))
               else if c = CHR '']'' then Some ([v], cs)
               else None))"
| "parse_members rt 0 s = None"
| "parse_members rt (Suc n) s =
     (case skip_ws s of
        [] \<Rightarrow> None
      | q # cs \<Rightarrow>
          if q \<noteq> CHR 0x22 then None
          else
            (case parse_chars cs of
               None \<Rightarrow> None
             | Some (k, r) \<Rightarrow>
                 (case skip_ws r of
                    [] \<Rightarrow> None
                  | c # r1 \<Rightarrow>
                      if c \<noteq> CHR '':'' then None
                      else
                        (case parse_value rt n r1 of
                           None \<Rightarrow> None
                         | Some (v, r2) \<Rightarrow>
                             (case skip_ws r2 of
                                [] \<Rightarrow> None
                              | d # r3 \<Rightarrow>
                                  if d = CHR '','' then
                                    (case parse_members rt n r3 of
                                       None \<Rightarrow> None
                                     | Some (kvs, r4) \<Rightarrow> Some ((k, v) # kvs, r4))
                                  else if d = CHR ''}'' then Some ([(k, v)], r3)
                                  else None)))))"

definition JSON_parse :: "runtime \<Rightarrow> string \<Rightarrow> json option" where
  "JSON_parse rt text =
     (case parse_value rt (Suc (length text)) text of
        None \<Rightarrow> None
      | Some (v, r) \<Rightarrow> if skip_ws r = [] then Some v else None)"







subsection \<open>Thrown values\<close>

text \<open>
  What a \<^verbatim>\<open>catch\<close> can receive, as far as the handler tells values apart: a
  \<^verbatim>\<open>NodeOperationError\<close> (its node, its \<^verbatim>\<open>message\<close> and its list
  \<^verbatim>\<open>messages\<close>), any other \<^verbatim>\<open>Error\<close> (its message), and a value that is no
  \<^verbatim>\<open>Error\<close> at all, kept as the text \<^verbatim>\<open>String(value)\<close> gives for it.
\<close>

datatype thrown =
    NodeOperationError string string "string list"
  | OtherError string
  | NonError string

text \<open>
  \<^verbatim>\<open>new NodeOperationError(node, message)\<close> on a string, as \<^verbatim>\<open>n8n-workflow\<close>
  builds it: the constructor looks through \<open>COMMON_ERRORS\<close> for the first code whose upper
  case occurs in the upper case of the message. With none, the error keeps the message.
  With one, the error's message is the descriptive text of that code and the message it
  was given becomes the one entry of \<^verbatim>\<open>messages\<close>.
\<close>

definition new_NodeOperationError :: "runtime \<Rightarrow> string \<Rightarrow> string \<Rightarrow> thrown" where
  "new_NodeOperationError rt node message =
     (case find (\<lambda>entry. sublist (toUpperCase rt (fst entry)) (toUpperCase rt message))
             (COMMON_ERRORS rt) of
        None \<Rightarrow> NodeOperationError node message []
      | Some entry \<Rightarrow> NodeOperationError node (snd entry) [message])"

subsection \<open>The host: credentials, HTTP helper, input and output tracking\<close>

record credentials =
  baseUrl :: "string option"
  apiKey :: string

record http_request =
  req_method :: string
  req_url :: string
  req_headers :: "(string \<times> string) list"
  req_body :: IDataObject
  req_json :: bool

text \<open>
  The second argument of \<^verbatim>\<open>addOutputData\<close>: the items \<^verbatim>\<open>[[{ json: outputData }]]\<close>
  or an error.
\<close>

datatype output_data = OutputItems IDataObject | OutputError thrown

text \<open>
  What an invocation does to the outside world, in the order it happens: the call of
  \<^verbatim>\<open>addInputData\<close> with the index it returned, the request handed to
  \<^verbatim>\<open>helpers.httpRequest\<close>, the call of \<^verbatim>\<open>addOutputData\<close> with the index it was
  given.
\<close>

datatype event =
    AddInputData nat IDataObject
  | HttpRequest http_request
  | AddOutputData nat output_data

text \<open>
  The host (\<^verbatim>\<open>ISupplyDataFunctions\<close>): the node \<^verbatim>\<open>getNode()\<close> returns, what
  \<^verbatim>\<open>getCredentials\<close> gives for a credential name, and what the HTTP helper answers
  to a request. Both may throw.
\<close>

record host =
  getNode :: string
  getCredentials :: "string \<Rightarrow> thrown + credentials"
  httpRequest :: "http_request \<Rightarrow> thrown + json"

text \<open>The execution state the host keeps: the next run index and the events so far.\<close>

record exec_state =
  runIndex :: nat
  events :: "event list"

definition addInputData :: "IDataObject \<Rightarrow> exec_state \<Rightarrow> nat \<times> exec_state" where
  "addInputData input st =
     (runIndex st,
      st\<lparr>runIndex := Suc (runIndex st), events := events st @ [AddInputData (runIndex st) input]\<rparr>)"

definition addOutputData :: "nat \<Rightarrow> output_data \<Rightarrow> exec_state \<Rightarrow> exec_state" where
  "addOutputData index data st = st\<lparr>events := events st @ [AddOutputData index data]\<rparr>"

text \<open>The requests a state has seen, oldest first.\<close>

fun http_requests :: "event list \<Rightarrow> http_request list" where
  "http_requests [] = []"
| "http_requests (HttpRequest r # es) = r # http_requests es"
| "http_requests (_ # es) = http_requests es"

subsection \<open>makeFirecrawlRequest\<close>

text \<open>
  \<^verbatim>\<open>(credentials.baseUrl as string) || 'https://api.firecrawl.dev/v2'\<close>: the
  default stands in for \<^verbatim>\<open>undefined\<close> and for the empty string.
\<close>

definition or_default :: "string option \<Rightarrow> string \<Rightarrow> string" where
  "or_default v d = (case v of None \<Rightarrow> d | Some s \<Rightarrow> if s = [] then d else s)"

definition request_options :: "credentials \<Rightarrow> string \<Rightarrow> IDataObject \<Rightarrow> http_request" where
  "request_options creds operation body =
     \<lparr>req_method = ''POST'',
      req_url = or_default (baseUrl creds) ''https://api.firecrawl.dev/v2'' @ ''/'' @ operation,
      req_headers =
        [(''Authorization'', ''Bearer '' @ apiKey creds),
         (''Content-Type'', ''application/json''),
         (''Accept'', ''application/json'')],
      req_body = spread [(''integration'', JStr ''n8n-tool'')] body,
      req_json = True\<rparr>"

definition makeFirecrawlRequest ::
  "host \<Rightarrow> string \<Rightarrow> IDataObject \<Rightarrow> exec_state \<Rightarrow> (thrown + json) \<times> exec_state" where
  "makeFirecrawlRequest context operation body st =
     (case getCredentials context ''firecrawlApi'' of
        Inl e \<Rightarrow> (Inl e, st)
      | Inr creds \<Rightarrow>
          (let req = request_options creds operation body
           in (httpRequest context req, st\<lparr>events := events st @ [HttpRequest req]\<rparr>)))"

subsection \<open>createToolHandler\<close>

text \<open>\<^verbatim>\<open>error instanceof NodeOperationError\<close>\<close>

definition is_NodeOperationError :: "thrown \<Rightarrow> bool" where
  "is_NodeOperationError e = (case e of NodeOperationError n m ms \<Rightarrow> True | _ \<Rightarrow> False)"

text \<open>\<^verbatim>\<open>error instanceof Error ? error.message : String(error)\<close>\<close>

definition error_message :: "thrown \<Rightarrow> string" where
  "error_message e =
     (case e of NodeOperationError n m ms \<Rightarrow> m | OtherError m \<Rightarrow> m | NonError s \<Rightarrow> s)"

text \<open>
  The handler \<^verbatim>\<open>createToolHandler(op)\<close> returns, run on one input. \<open>Inr\<close> is the
  string it returns, \<open>Inl\<close> the value it throws. What the \<^verbatim>\<open>try\<close> block can throw
  is what \<^verbatim>\<open>makeFirecrawlRequest\<close> throws: the two tracking calls and
  \<^verbatim>\<open>JSON.stringify\<close> on JSON data do not throw.
\<close>

definition createToolHandler ::
  "runtime \<Rightarrow> host \<Rightarrow> string \<Rightarrow> IDataObject \<Rightarrow> exec_state \<Rightarrow> (thrown + string) \<times> exec_state" where
  "createToolHandler rt this op input st =
     (let (index, st1) = addInputData input st
      in case makeFirecrawlRequest this op input st1 of
           (Inr response, st2) \<Rightarrow>
             (let outputData = [(''response'', response)];
                  st3 = addOutputData index (OutputItems outputData) st2
              in (Inr (JSON_stringify response 2), st3))
         | (Inl error, st2) \<Rightarrow>
             (if is_NodeOperationError error then (Inl error, st2)
              else
                (let errorMessage = error_message error;
                     nodeError = new_NodeOperationError rt (getNode this)
                       (''Firecrawl API error for '' @ op @ '': '' @ errorMessage
                          @ ''. Input: '' @ JSON_stringify (JObj input) 0);
                     st3 = addOutputData index (OutputError nodeError) st2
                 in (Inl nodeError, st3))))"

text \<open>The events a step added to the state it started from.\<close>

definition new_events :: "exec_state \<Rightarrow> exec_state \<Rightarrow> event list" where
  "new_events st st' = drop (length (events st)) (events st')"

subsection \<open>zod schemas\<close>

text \<open>
  The part of zod the file uses. \<open>ZString m\<close> is \<^verbatim>\<open>z.string()\<close>, with
  \<open>m = Some n\<close> after \<^verbatim>\<open>.min(n)\<close>; \<open>ZEnum\<close>, \<open>ZArray\<close> and \<open>ZObject\<close> are
  \<^verbatim>\<open>z.enum\<close>, \<^verbatim>\<open>z.array\<close> and \<^verbatim>\<open>z.object\<close>; \<open>ZOptional s\<close> is
  \<^verbatim>\<open>s.optional()\<close> and \<open>ZDescribe s d\<close> is \<^verbatim>\<open>s.describe(d)\<close>.
\<close>

datatype zod =
    ZString "nat option"
  | ZNumber
  | ZBoolean
  | ZEnum "string list"
  | ZArray zod
  | ZObject "(string \<times> zod) list"
  | ZOptional zod
  | ZDescribe zod string

text \<open>\<^verbatim>\<open>.partial()\<close> on an object schema makes every field optional.\<close>

fun partial :: "zod \<Rightarrow> zod" where
  "partial (ZObject shape) = ZObject (map (\<lambda>(k, s). (k, ZOptional s)) shape)"
| "partial s = s"

datatype zod_error = ZodError

text \<open>
  The items of a parsed array. An array of JSON data has no \<^verbatim>\<open>undefined\<close> element and
  a defined input never parses to \<^verbatim>\<open>undefined\<close>, so the \<open>None\<close> case does not arise.
\<close>

fun collect_items :: "(zod_error + json option) list \<Rightarrow> zod_error + json list" where
  "collect_items [] = Inr []"
| "collect_items (Inl e # rs) = Inl e"
| "collect_items (Inr None # rs) = Inl ZodError"
| "collect_items (Inr (Some y) # rs) =
     (case collect_items rs of Inl e \<Rightarrow> Inl e | Inr ys \<Rightarrow> Inr (y # ys))"

text \<open>
  The fields of a parsed object, in the order of the schema's shape: a field whose value
  parsed to \<^verbatim>\<open>undefined\<close> (an optional field the input does not have) is left out.
\<close>

fun collect_fields :: "(string \<times> (zod_error + json option)) list \<Rightarrow> zod_error + IDataObject" where
  "collect_fields [] = Inr []"
| "collect_fields ((k, Inl e) # rs) = Inl e"
| "collect_fields ((k, Inr v) # rs) =
     (case collect_fields rs of
        Inl e \<Rightarrow> Inl e
      | Inr fs \<Rightarrow> Inr (case v of None \<Rightarrow> fs | Some y \<Rightarrow> (k, y) # fs))"

text \<open>
  \<^verbatim>\<open>schema.parse(value)\<close>: \<open>Inl\<close> when zod rejects the value, else the parsed value.
  The input \<open>None\<close> is \<^verbatim>\<open>undefined\<close>. An object schema is in zod's default mode: it
  reads the fields of its shape and strips every other key.
\<close>

fun zod_parse :: "zod \<Rightarrow> json option \<Rightarrow> zod_error + json option" where
  "zod_parse (ZOptional s) v = (case v of None \<Rightarrow> Inr None | Some x \<Rightarrow> zod_parse s v)"
| "zod_parse (ZDescribe s d) v = zod_parse s v"
| "zod_parse (ZString m) v =
     (case v of
        Some (JStr x) \<Rightarrow>
          (case m of
             None \<Rightarrow> Inr v
           | Some n \<Rightarrow> if length x < n then Inl ZodError else Inr v)
      | _ \<Rightarrow> Inl ZodError)"
| "zod_parse ZNumber v = (case v of Some (JNum n) \<Rightarrow> Inr v | _ \<Rightarrow> Inl ZodError)"
| "zod_parse ZBoolean v = (case v of Some (JBool b) \<Rightarrow> Inr v | _ \<Rightarrow> Inl ZodError)"
| "zod_parse (ZEnum vs) v =
     (case v of
        Some (JStr x) \<Rightarrow> if x \<in> set vs then Inr v else Inl ZodError
      | _ \<Rightarrow> Inl ZodError)"
| "zod_parse (ZArray s) v =
     (case v of
        Some (JArr xs) \<Rightarrow>
          (case collect_items (map (\<lambda>x. zod_parse s (Some x)) xs) of
             Inl e \<Rightarrow> Inl e
           | Inr ys \<Rightarrow> Inr (Some (JArr ys)))
      | _ \<Rightarrow> Inl ZodError)"
| "zod_parse (ZObject shape) v =
     (case v of
        Some (JObj obj) \<Rightarrow>
          (case collect_fields (map (\<lambda>(k, s). (k, zod_parse s (get_prop obj k))) shape) of
             Inl e \<Rightarrow> Inl e
           | Inr fs \<Rightarrow> Inr (Some (JObj fs)))
      | _ \<Rightarrow> Inl ZodError)"

text \<open>Reading schemas: the field of an object schema, and the layers around a type.\<close>

fun shape_of :: "zod \<Rightarrow> (string \<times> zod) list" where
  "shape_of (ZObject shape) = shape"
| "shape_of (ZOptional s) = shape_of s"
| "shape_of (ZDescribe s d) = shape_of s"
| "shape_of s = []"

definition field_schema :: "zod \<Rightarrow> string \<Rightarrow> zod option" where
  "field_schema s k = map_of (shape_of s) k"

text \<open>A schema accepts \<^verbatim>\<open>undefined\<close> when an \<open>optional\<close> stands around its type.\<close>

fun is_optional :: "zod \<Rightarrow> bool" where
  "is_optional (ZOptional s) = True"
| "is_optional (ZDescribe s d) = is_optional s"
| "is_optional s = False"

text \<open>
  The type a schema declares: the schema without its \<open>optional\<close> and \<open>describe\<close>
  layers, at every depth.
\<close>

fun declared_type :: "zod \<Rightarrow> zod" where
  "declared_type (ZOptional s) = declared_type s"
| "declared_type (ZDescribe s d) = declared_type s"
| "declared_type (ZArray s) = ZArray (declared_type s)"
| "declared_type (ZObject shape) = ZObject (map (\<lambda>(k, s). (k, declared_type s)) shape)"
| "declared_type s = s"

text \<open>The fields an object schema declares: name, optionality, type.\<close>

definition declared_fields :: "zod \<Rightarrow> (string \<times> bool \<times> zod) list" where
  "declared_fields s = map (\<lambda>(k, f). (k, is_optional f, declared_type f)) (shape_of s)"

text \<open>The schema with every description removed and nothing else changed.\<close>

fun undescribed :: "zod \<Rightarrow> zod" where
  "undescribed (ZDescribe s d) = undescribed s"
| "undescribed (ZOptional s) = ZOptional (undescribed s)"
| "undescribed (ZArray s) = ZArray (undescribed s)"
| "undescribed (ZObject shape) = ZObject (map (\<lambda>(k, s). (k, undescribed s)) shape)"
| "undescribed s = s"

text \<open>
  Every \<^verbatim>\<open>z.string()\<close> of a schema, with the path of field names that leads to it
  (\<open>[]\<close> for the items of an array) and its minimum length.
\<close>

fun string_fields :: "zod \<Rightarrow> (string list \<times> nat option) list" where
  "string_fields (ZString m) = [([], m)]"
| "string_fields (ZOptional s) = string_fields s"
| "string_fields (ZDescribe s d) = string_fields s"
| "string_fields (ZArray s) = map (\<lambda>(p, m). (''[]'' # p, m)) (string_fields s)"
| "string_fields (ZObject shape) =
     concat (map (\<lambda>(k, s). map (\<lambda>(p, m). (k # p, m)) (string_fields s)) shape)"
| "string_fields s = []"

subsection \<open>The four parameter schemas\<close>

definition scrape_schema :: zod where
  \<open>scrape_schema = ZObject
     [(''url'', ZDescribe (ZString None) ''The URL to scrape''),
      (''formats'',
         ZDescribe
           (ZOptional (ZArray (ZEnum [''markdown'', ''html'', ''rawHtml'', ''links'', ''screenshot''])))
           ''Output formats to return (default: ["markdown"])''),
      (''onlyMainContent'',
         ZDescribe (ZOptional ZBoolean)
           ''Only return the main content of the page excluding headers, navs, footers, etc.''),
      (''includeTags'',
         ZDescribe (ZOptional (ZArray (ZString None)))
           ''Only include tags, classes and ids from the page in the final output''),
      (''excludeTags'',
         ZDescribe (ZOptional (ZArray (ZString None)))
           ''Tags, classes and ids to remove from the output''),
      (''waitFor'',
         ZDescribe (ZOptional ZNumber)
           ''Wait x amount of milliseconds for the page to load to fetch content''),
      (''mobile'', ZDescribe (ZOptional ZBoolean) ''Emulate a mobile device to load the page'')]\<close>

definition map_schema :: zod where
  "map_schema = ZObject
     [(''url'', ZDescribe (ZString None) ''The base URL to start mapping from''),
      (''search'', ZDescribe (ZOptional (ZString None)) ''Search query to filter discovered URLs''),
      (''sitemap'',
         ZDescribe (ZOptional (ZEnum [''include'', ''skip'', ''only'']))
           ''How to use sitemap: include (default), skip, or only''),
      (''includeSubdomains'', ZDescribe (ZOptional ZBoolean) ''Include subdomains of the website''),
      (''limit'', ZDescribe (ZOptional ZNumber) ''Maximum number of links to return''),
      (''ignoreQueryParameters'',
         ZDescribe (ZOptional ZBoolean) ''Ignore query parameters when mapping URLs'')]"

definition search_schema :: zod where
  "search_schema = ZObject
     [(''query'', ZDescribe (ZString (Some 1)) ''The search query string''),
      (''limit'', ZDescribe (ZOptional ZNumber) ''Maximum number of results to return''),
      (''tbs'', ZDescribe (ZOptional (ZString None)) ''Time-based search parameter''),
      (''filter'', ZDescribe (ZOptional (ZString None)) ''Filter parameter for search''),
      (''location'', ZDescribe (ZOptional (ZString None)) ''Location for search results''),
      (''scrapeOptions'',
         ZDescribe
           (ZOptional
             (partial
               (ZObject
                 [(''formats'',
                     ZOptional
                       (ZArray (ZEnum [''markdown'', ''html'', ''rawHtml'', ''links'', ''screenshot'']))),
                  (''onlyMainContent'', ZOptional ZBoolean),
                  (''includeTags'', ZOptional (ZArray (ZString None))),
                  (''excludeTags'', ZOptional (ZArray (ZString None))),
                  (''waitFor'', ZOptional ZNumber),
                  (''mobile'', ZOptional ZBoolean)])))
           ''Options for scraping each search result'')]"

definition crawl_schema :: zod where
  \<open>crawl_schema = ZObject
     [(''url'', ZDescribe (ZString None) ''The base URL to start crawling from''),
      (''excludePaths'',
         ZDescribe (ZOptional (ZArray (ZString None)))
           ''URL path patterns to exclude (e.g., ["/admin/*"])''),
      (''includePaths'',
         ZDescribe (ZOptional (ZArray (ZString None)))
           ''URL path patterns to include (e.g., ["/blog/*"])''),
      (''maxDiscoveryDepth'',
         ZDescribe (ZOptional ZNumber) ''Maximum depth to crawl relative to the start URL''),
      (''sitemap'', ZDescribe (ZOptional (ZEnum [''skip'', ''include'', ''only''])) ''How to use sitemap''),
      (''limit'', ZDescribe (ZOptional ZNumber) ''Maximum number of pages to crawl''),
      (''allowExternalLinks'',
         ZDescribe (ZOptional ZBoolean) ''Allow following links to external domains''),
      (''allowSubdomains'', ZDescribe (ZOptional ZBoolean) ''Allow crawling subdomains''),
      (''crawlEntireDomain'', ZDescribe (ZOptional ZBoolean) ''Crawl the entire domain''),
      (''delay'', ZDescribe (ZOptional ZNumber) ''Delay between requests in milliseconds''),
      (''maxConcurrency'', ZDescribe (ZOptional ZNumber) ''Maximum concurrent requests''),
      (''deduplicateSimilarURLs'', ZDescribe (ZOptional ZBoolean) ''Deduplicate similar URLs''),
      (''ignoreQueryParameters'',
         ZDescribe (ZOptional ZBoolean) ''Ignore query parameters when crawling''),
      (''scrapeOptions'',
         ZDescribe
           (ZOptional
             (partial
               (ZObject
                 [(''formats'',
                     ZOptional
                       (ZArray (ZEnum [''markdown'', ''html'', ''rawHtml'', ''links'', ''screenshot'']))),
                  (''onlyMainContent'', ZOptional ZBoolean),
                  (''includeTags'', ZOptional (ZArray (ZString None))),
                  (''excludeTags'', ZOptional (ZArray (ZString None))),
                  (''waitFor'', ZOptional ZNumber),
                  (''mobile'', ZOptional ZBoolean)])))
           ''Options for scraping each page during the crawl'')]\<close>

subsection \<open>The built-in descriptions\<close>

definition scrape_description :: string where
  \<open>scrape_description =
     ''Scrape content from a single URL with advanced options. \<newline>'' @
     ''This is the most powerful, fastest and most reliable scraper tool, if available you should always default to using this tool for any web scraping needs.\<newline>'' @
     ''\<newline>'' @
     ''**Best for:** Single page content extraction, when you know exactly which page contains the information.\<newline>'' @
     ''**Not recommended for:** Multiple pages (use crawl), unknown page (use search).\<newline>'' @
     ''**Common mistakes:** Using scrape for a list of URLs (use crawl instead for multiple URLs).\<newline>'' @
     ''**Prompt Example:** "Get the content of the page at https://example.com."\<newline>'' @
     ''**Usage Example:**\<newline>'' @
     ''```json\<newline>'' @
     ''{\<newline>'' @
     ''  "url": "https://example.com",\<newline>'' @
     ''  "formats": ["markdown"],\<newline>'' @
     ''  "onlyMainContent": true\<newline>'' @
     ''}\<newline>'' @
     ''```\<newline>'' @
     ''**Returns:** Markdown, HTML, or other formats as specified.''\<close>

definition map_description :: string where
  \<open>map_description =
     ''Map a website to discover all indexed URLs on the site.\<newline>'' @
     ''\<newline>'' @
     ''**Best for:** Discovering URLs on a website before deciding what to scrape; finding specific sections of a website.\<newline>'' @
     ''**Not recommended for:** When you already know which specific URL you need (use scrape); when you need the content of the pages (use scrape after mapping).\<newline>'' @
     ''**Common mistakes:** Using crawl to discover URLs instead of map.\<newline>'' @
     ''**Prompt Example:** "List all URLs on example.com."\<newline>'' @
     ''**Usage Example:**\<newline>'' @
     ''```json\<newline>'' @
     ''{\<newline>'' @
     ''  "url": "https://example.com"\<newline>'' @
     ''}\<newline>'' @
     ''```\<newline>'' @
     ''**Returns:** Array of URLs found on the site.''\<close>

definition search_description :: string where
  \<open>search_description =
     ''Search the web and optionally extract content from search results. This is the most powerful web search tool available, and if available you should always default to using this tool for any web search needs.\<newline>'' @
     ''\<newline>'' @
     ''**Best for:** Finding specific information across multiple websites, when you don't know which website has the information; when you need the most relevant content for a query.\<newline>'' @
     ''**Not recommended for:** When you already know which website to scrape (use scrape); when you need comprehensive coverage of a single website (use map or crawl).\<newline>'' @
     ''**Common mistakes:** Using crawl or map for open-ended questions (use search instead).\<newline>'' @
     ''**Scrape Options:** Only use scrapeOptions when you think it is absolutely necessary. When you do so default to a lower limit to avoid timeouts, 5 or lower.\<newline>'' @
     ''**Optimal Workflow:** Search first without formats, then after fetching the results, use the scrape tool to get the content of the relevant page(s) that you want to scrape.\<newline>'' @
     ''**Prompt Example:** "Find the latest research papers on AI published in 2023."\<newline>'' @
     ''**Usage Example without formats (Preferred):**\<newline>'' @
     ''```json\<newline>'' @
     ''{\<newline>'' @
     ''  "query": "top AI companies",\<newline>'' @
     ''  "limit": 5\<newline>'' @
     ''}\<newline>'' @
     ''```\<newline>'' @
     ''**Usage Example with formats:**\<newline>'' @
     ''```json\<newline>'' @
     ''{\<newline>'' @
     ''  "query": "latest AI research papers 2023",\<newline>'' @
     ''  "limit": 5,\<newline>'' @
     ''  "scrapeOptions": {\<newline>'' @
     ''    "formats": ["markdown"],\<newline>'' @
     ''    "onlyMainContent": true\<newline>'' @
     ''  }\<newline>'' @
     ''}\<newline>'' @
     ''```\<newline>'' @
     ''**Returns:** Array of search results (with optional scraped content).''\<close>

definition crawl_description :: string where
  \<open>crawl_description =
     ''Starts a crawl job on a website and extracts content from all pages.\<newline>'' @
     ''\<newline>'' @
     ''**Best for:** Extracting content from multiple related pages, when you need comprehensive coverage.\<newline>'' @
     ''**Not recommended for:** Extracting content from a single page (use scrape); when you need fast results (crawling can be slow).\<newline>'' @
     ''**Warning:** Crawl responses can be very large and may exceed token limits. Limit the crawl depth and number of pages.\<newline>'' @
     ''**Common mistakes:** Setting limit or maxDiscoveryDepth too high (causes token overflow) or too low (causes missing pages); using crawl for a single page (use scrape instead). Using a /* wildcard is not recommended.\<newline>'' @
     ''**Prompt Example:** "Get all blog posts from the first two levels of example.com/blog."\<newline>'' @
     ''**Usage Example:**\<newline>'' @
     ''```json\<newline>'' @
     ''{\<newline>'' @
     ''  "url": "https://example.com/blog",\<newline>'' @
     ''  "maxDiscoveryDepth": 5,\<newline>'' @
     ''  "limit": 20,\<newline>'' @
     ''  "allowExternalLinks": false,\<newline>'' @
     ''  "deduplicateSimilarURLs": true,\<newline>'' @
     ''  "sitemap": "include"\<newline>'' @
     ''}\<newline>'' @
     ''```\<newline>'' @
     ''**Returns:** Operation ID for status checking.''\<close>

subsection \<open>The tool and supplyData\<close>

text \<open>
  What \<^verbatim>\<open>new DynamicStructuredTool({ name, description, schema, func })\<close> holds.
\<close>

record tool =
  tool_name :: string
  tool_description :: string
  tool_schema :: zod
  tool_func :: "IDataObject \<Rightarrow> exec_state \<Rightarrow> (thrown + string) \<times> exec_state"

text \<open>
  Calling the tool, as the \<^verbatim>\<open>DynamicStructuredTool\<close> of LangChain does: the argument
  is parsed with the tool's schema, a rejected argument throws a
  \<^verbatim>\<open>ToolInputParsingException\<close> and \<^verbatim>\<open>func\<close> is not called; otherwise
  \<^verbatim>\<open>func\<close> runs on the parsed argument. This is the one way in which the handler
  is invoked.
\<close>

definition ToolInputParsingException :: thrown where
  "ToolInputParsingException = OtherError ''Received tool input did not match expected schema''"

definition tool_call :: "tool \<Rightarrow> json \<Rightarrow> exec_state \<Rightarrow> (thrown + string) \<times> exec_state" where
  "tool_call t arg st =
     (case zod_parse (tool_schema t) (Some arg) of
        Inr (Some (JObj parsed)) \<Rightarrow> tool_func t parsed st
      | _ \<Rightarrow> (Inl ToolInputParsingException, st))"

text \<open>
  The node's parameters as configured; \<open>None\<close> is a parameter that is not set, for which
  \<^verbatim>\<open>getNodeParameter(name, itemIndex, fallback)\<close> gives the fallback.
\<close>

record node_parameters =
  toolType :: "string option"
  description :: "string option"

definition getNodeParameter :: "string option \<Rightarrow> string \<Rightarrow> string" where
  "getNodeParameter v fallback = (case v of None \<Rightarrow> fallback | Some x \<Rightarrow> x)"

text \<open>\<^verbatim>\<open>a || b\<close> on strings: the empty string is falsy.\<close>

definition js_or :: "string \<Rightarrow> string \<Rightarrow> string" where
  "js_or a b = (if a = [] then b else a)"

text \<open>
  \<^verbatim>\<open>supplyData\<close>: \<open>Inr\<close> is the tool of the returned \<^verbatim>\<open>{ response: tool }\<close>,
  \<open>Inl\<close> the error of the \<^verbatim>\<open>default\<close> branch, with which the promise the function
  returns is rejected. It reads two parameters and the node and calls nothing else of the
  host, so the state it returns is the state it was given.
\<close>

definition supplyData ::
  "runtime \<Rightarrow> host \<Rightarrow> node_parameters \<Rightarrow> exec_state \<Rightarrow> (thrown + tool) \<times> exec_state" where
  "supplyData rt this params st =
     (let operation = getNodeParameter (toolType params) ''scrape'';
          customDescription = getNodeParameter (description params) [];
          node = getNode this;
          toolName = ''firecrawl_'' @ operation
      in if operation = ''scrape'' then
           (Inr \<lparr>tool_name = toolName,
                 tool_description = js_or customDescription scrape_description,
                 tool_schema = scrape_schema,
                 tool_func = createToolHandler rt this ''scrape''\<rparr>, st)
         else if operation = ''map'' then
           (Inr \<lparr>tool_name = toolName,
                 tool_description = js_or customDescription map_description,
                 tool_schema = map_schema,
                 tool_func = createToolHandler rt this ''map''\<rparr>, st)
         else if operation = ''search'' then
           (Inr \<lparr>tool_name = toolName,
                 tool_description = js_or customDescription search_description,
                 tool_schema = search_schema,
                 tool_func = createToolHandler rt this ''search''\<rparr>, st)
         else if operation = ''crawl'' then
           (Inr \<lparr>tool_name = toolName,
                 tool_description = js_or customDescription crawl_description,
                 tool_schema = crawl_schema,
                 tool_func = createToolHandler rt this ''crawl''\<rparr>, st)
         else (Inl (new_NodeOperationError rt node (''Unknown operation: '' @ operation)), st))"

subsection \<open>A stub host and a runtime\<close>

text \<open>
  A host whose credential store and HTTP helper give fixed answers, and the state before
  any invocation; the concrete runs below use them.
\<close>

definition example_credentials :: credentials where
  "example_credentials = \<lparr>baseUrl = None, apiKey = ''fc-test''\<rparr>"

definition stub_host :: "thrown + credentials \<Rightarrow> thrown + json \<Rightarrow> host" where
  "stub_host creds answer =
     \<lparr>getNode = ''Firecrawl'', getCredentials = (\<lambda>name. creds), httpRequest = (\<lambda>req. answer)\<rparr>"

definition initial_state :: exec_state where
  "initial_state = \<lparr>runIndex = 0, events = []\<rparr>"

text \<open>
  The runtime of the concrete runs. Its table is the one \<^verbatim>\<open>n8n-workflow\<close> lists. Its
  \<open>toUpperCase\<close> raises the letters a to z and is what JavaScript does on ASCII text. Its
  \<open>ToNumber\<close> gives infinity from ten to the 309 on, which is above every double, and
  zero below ten to the -325, which is under half the least double; in between it leaves
  the decimal as it is, which is what rounding to the nearest double does on a decimal
  that is the shortest form of a double, as the short decimals of the runs are.
\<close>

definition example_ToNumber :: "bool \<Rightarrow> nat \<Rightarrow> int \<Rightarrow> number" where
  "example_ToNumber negative s e =
     (let n = int (length (digits s)) + e
      in if 309 < n then (if negative then NegInfinity else PosInfinity)
         else if n < - 324 then (if negative then NegZero else Zero)
         else Finite negative s e)"

definition ascii_upper :: "char \<Rightarrow> char" where
  "ascii_upper c =
     (case map_of (zip ''abcdefghijklmnopqrstuvwxyz'' ''ABCDEFGHIJKLMNOPQRSTUVWXYZ'') c of
        None \<Rightarrow> c
      | Some u \<Rightarrow> u)"

definition example_runtime :: runtime where
  "example_runtime =
     \<lparr>ToNumber = example_ToNumber,
      toUpperCase = map ascii_upper,
      COMMON_ERRORS =
        [(''ECONNREFUSED'', ''The service refused the connection - perhaps it is offline''),
         (''ECONNRESET'',
            ''The connection to the server was closed unexpectedly, perhaps it is offline. You can retry the request immediately or wait and retry later.''),
         (''ENOTFOUND'',
            ''The connection cannot be established, this usually occurs due to an incorrect host (domain) value''),
         (''ETIMEDOUT'',
            ''The connection timed out, consider setting the 'Retry on Fail' option in the node settings''),
         (''ERRADDRINUSE'',
            ''The port is already occupied by some other application, if possible change the port or kill the application that is using it''),
         (''EADDRNOTAVAIL'', ''The address is not available, ensure that you have the right IP address''),
         (''ECONNABORTED'', ''The connection was aborted, perhaps the server is offline''),
         (''EHOSTUNREACH'', ''The host is unreachable, perhaps the server is offline''),
         (''EAI_AGAIN'', ''The DNS server returned an error, perhaps the server is offline''),
         (''ENOENT'', ''The file or directory does not exist''),
         (''EISDIR'', ''The file path was expected but the given path is a directory''),
         (''ENOTDIR'', ''The directory path was expected but the given path is a file''),
         (''EACCES'', ''Forbidden by access permissions, make sure you have the right permissions''),
         (''EEXIST'', ''The file or directory already exists''),
         (''EPERM'', ''Operation not permitted, make sure you have the right permissions''),
         (''GETADDRINFO'', ''The server closed the connection unexpectedly'')]\<rparr>"

section \<open>Properties\<close>

subsection \<open>What one invocation of the handler does\<close>

lemma makeFirecrawlRequest_result:
  "fst (makeFirecrawlRequest this op body st) =
     (case getCredentials this ''firecrawlApi'' of
        Inl e \<Rightarrow> Inl e
      | Inr creds \<Rightarrow> httpRequest this (request_options creds op body))"
  by (simp add: makeFirecrawlRequest_def Let_def split: sum.splits)

lemma http_requests_append:
  "http_requests (xs @ ys) = http_requests xs @ http_requests ys"
  by (induction xs rule: http_requests.induct) simp_all

lemma handler_new_events:
  "new_events st (snd (createToolHandler rt this op input st)) =
     AddInputData (runIndex st) input #
     (case getCredentials this ''firecrawlApi'' of
        Inl e \<Rightarrow> []
      | Inr creds \<Rightarrow> [HttpRequest (request_options creds op input)]) @
     (case fst (makeFirecrawlRequest this op input st) of
        Inr R \<Rightarrow> [AddOutputData (runIndex st) (OutputItems [(''response'', R)])]
      | Inl e \<Rightarrow>
          if is_NodeOperationError e then []
          else [AddOutputData (runIndex st) (OutputError (new_NodeOperationError rt (getNode this)
                  (''Firecrawl API error for '' @ op @ '': '' @ error_message e
                     @ ''. Input: '' @ JSON_stringify (JObj input) 0)))])"
  by (auto simp add: createToolHandler_def makeFirecrawlRequest_def addInputData_def
      addOutputData_def new_events_def Let_def split: sum.splits prod.splits)

lemma handler_result:
  "fst (createToolHandler rt this op input st) =
     (case fst (makeFirecrawlRequest this op input st) of
        Inr R \<Rightarrow> Inr (JSON_stringify R 2)
      | Inl e \<Rightarrow>
          if is_NodeOperationError e then Inl e
          else Inl (new_NodeOperationError rt (getNode this)
                  (''Firecrawl API error for '' @ op @ '': '' @ error_message e
                     @ ''. Input: '' @ JSON_stringify (JObj input) 0)))"
  by (auto simp add: createToolHandler_def makeFirecrawlRequest_def addInputData_def
      addOutputData_def Let_def split: sum.splits prod.splits)

lemma handler_requests:
  "http_requests (new_events st (snd (createToolHandler rt this op input st))) =
     (case getCredentials this ''firecrawlApi'' of
        Inl e \<Rightarrow> []
      | Inr creds \<Rightarrow> [request_options creds op input])"
  by (simp add: handler_new_events http_requests_append is_NodeOperationError_def
      split: sum.splits thrown.splits)

text \<open>The error the constructor builds, by what it finds in the table.\<close>

lemma new_NodeOperationError_cases:
  "\<exists>msg ms. new_NodeOperationError rt node message = NodeOperationError node msg ms
      \<and> (case find (\<lambda>entry. sublist (toUpperCase rt (fst entry)) (toUpperCase rt message))
                 (COMMON_ERRORS rt) of
           None \<Rightarrow> msg = message \<and> ms = []
         | Some entry \<Rightarrow> msg = snd entry \<and> ms = [message])"
  by (simp add: new_NodeOperationError_def split: option.splits)

subsection \<open>The object spread\<close>

lemma map_of_replace_prop:
  "k \<in> set (map fst obj) \<Longrightarrow> map_of (replace_prop k v obj) = (map_of obj)(k \<mapsto> v)"
proof (induction obj)
  case Nil
  then show ?case by simp
next
  case (Cons p obj)
  obtain k' v' where p: "p = (k', v')" by (cases p)
  show ?case
  proof (cases "k' = k")
    case True
    then show ?thesis by (auto simp add: p)
  next
    case False
    then have "k \<in> set (map fst obj)" using Cons.prems by (simp add: p)
    then have "map_of (replace_prop k v obj) = (map_of obj)(k \<mapsto> v)" by (rule Cons.IH)
    then show ?thesis using False by (auto simp add: p fun_eq_iff)
  qed
qed

lemma map_fst_replace_prop: "map fst (replace_prop k v obj) = map fst obj"
  by (induction obj) auto

lemma map_of_insert:
  "k \<notin> set (map fst xs) \<Longrightarrow> map_of (xs @ (k, v) # ys) = (map_of (xs @ ys))(k \<mapsto> v)"
  by (induction xs) auto

lemma map_of_set_prop: "map_of (set_prop k v obj) = (map_of obj)(k \<mapsto> v)"
proof (cases "k \<in> set (map fst obj)")
  case True
  then show ?thesis by (simp add: set_prop_def map_of_replace_prop)
next
  case False
  let ?P = "\<lambda>p. stays_before k (fst p)"
  have "k \<notin> set (map fst (takeWhile ?P obj))"
    using False by (auto dest: set_takeWhileD)
  then have "map_of (takeWhile ?P obj @ (k, v) # dropWhile ?P obj)
      = (map_of (takeWhile ?P obj @ dropWhile ?P obj))(k \<mapsto> v)"
    by (rule map_of_insert)
  then show ?thesis
    using False by (simp add: set_prop_def)
qed

lemma set_map_fst_set_prop: "set (map fst (set_prop k v obj)) = insert k (set (map fst obj))"
proof (cases "k \<in> set (map fst obj)")
  case True
  then show ?thesis by (auto simp add: set_prop_def map_fst_replace_prop)
next
  case False
  let ?P = "\<lambda>p. stays_before k (fst p)"
  have "set (map fst (takeWhile ?P obj @ (k, v) # dropWhile ?P obj))
      = insert k (set (map fst (takeWhile ?P obj @ dropWhile ?P obj)))"
    by (simp del: takeWhile_dropWhile_id)
  then show ?thesis
    using False by (simp add: set_prop_def)
qed

lemma distinct_set_prop:
  assumes "distinct (map fst obj)"
  shows "distinct (map fst (set_prop k v obj))"
proof (cases "k \<in> set (map fst obj)")
  case True
  then show ?thesis using assms by (simp add: set_prop_def map_fst_replace_prop)
next
  case False
  let ?P = "\<lambda>p. stays_before k (fst p)"
  have "distinct (map fst (takeWhile ?P obj @ dropWhile ?P obj))"
    using assms by simp
  moreover have "k \<notin> set (map fst (takeWhile ?P obj @ dropWhile ?P obj))"
    using False by simp
  ultimately have "distinct (map fst (takeWhile ?P obj @ (k, v) # dropWhile ?P obj))"
    by (simp del: takeWhile_dropWhile_id)
  then show ?thesis
    using False by (simp add: set_prop_def)
qed

lemma spread_Cons: "spread target ((k, v) # src) = spread (set_prop k v target) src"
  by (simp add: spread_def)

lemma map_of_spread:
  "map_of (spread target src) k =
     (case map_of (rev src) k of None \<Rightarrow> map_of target k | Some v \<Rightarrow> Some v)"
proof (induction src arbitrary: target)
  case Nil
  then show ?case by (simp add: spread_def)
next
  case (Cons p src)
  obtain k' v' where p: "p = (k', v')" by (cases p)
  show ?case
    using Cons.IH [of "set_prop k' v' target"]
    by (auto simp add: p spread_Cons map_of_set_prop map_of_append split: option.splits)
qed

lemma map_of_rev_distinct: "distinct (map fst xs) \<Longrightarrow> map_of (rev xs) = map_of xs"
  by (rule map_of_inject_set [THEN iffD2]) (simp_all add: rev_map [symmetric])

lemma distinct_spread:
  "distinct (map fst target) \<Longrightarrow> distinct (map fst (spread target src))"
proof (induction src arbitrary: target)
  case Nil
  then show ?case by (simp add: spread_def)
next
  case (Cons p src)
  obtain k v where p: "p = (k, v)" by (cases p)
  show ?case
    unfolding p spread_Cons using Cons.prems by (intro Cons.IH distinct_set_prop)
qed

lemma ordered_keys_prefix: "ordered_keys (xs @ ys) \<Longrightarrow> ordered_keys xs"
proof (induction xs rule: ordered_keys.induct)
  case (2 k)
  then show ?case by simp
next
  case (3 k k' ks)
  then show ?case by simp
qed simp

lemma ordered_keys_last:
  "ordered_keys (ks @ [k]) \<Longrightarrow> k' \<in> set ks \<Longrightarrow> stays_before k k'"
proof (induction ks arbitrary: k')
  case Nil
  then show ?case by simp
next
  case (Cons a ks)
  show ?case
  proof (cases ks)
    case Nil
    then show ?thesis
      using Cons.prems by (simp add: stays_before_def)
  next
    case (Cons b ks')
    have o: "ordered_keys (ks @ [k])" and ab: "is_array_index b \<longrightarrow> is_array_index a \<and> digits_value a < digits_value b"
      using Cons.prems(1) by (simp_all add: Cons)
    have b: "stays_before k b"
      using o by (rule Cons.IH) (simp add: Cons)
    show ?thesis
    proof (cases "k' = a")
      case True
      then show ?thesis
        using ab b by (auto simp add: stays_before_def)
    next
      case False
      then have "k' \<in> set ks" using Cons.prems(2) by simp
      with o show ?thesis by (rule Cons.IH)
    qed
  qed
qed

lemma set_prop_new:
  assumes "k \<notin> set (map fst obj)" and "ordered_keys (map fst obj @ [k])"
  shows "set_prop k v obj = obj @ [(k, v)]"
proof -
  have "\<forall>p \<in> set obj. stays_before k (fst p)"
    using ordered_keys_last [OF assms(2)] by auto
  then have "takeWhile (\<lambda>p. stays_before k (fst p)) obj = obj"
    and "dropWhile (\<lambda>p. stays_before k (fst p)) obj = []"
    by simp_all
  then show ?thesis
    using assms(1) by (simp add: set_prop_def)
qed

lemma spread_ordered:
  "distinct (map fst (target @ src)) \<Longrightarrow> ordered_keys (map fst (target @ src)) \<Longrightarrow>
   spread target src = target @ src"
proof (induction src arbitrary: target)
  case Nil
  then show ?case by (simp add: spread_def)
next
  case (Cons kv src)
  obtain k v where kv: "kv = (k, v)" by (cases kv)
  have new: "k \<notin> set (map fst target)"
    using Cons.prems(1) by (auto simp add: kv)
  have "ordered_keys ((map fst target @ [k]) @ map fst src)"
    using Cons.prems(2) by (simp add: kv)
  then have o: "ordered_keys (map fst target @ [k])"
    by (rule ordered_keys_prefix)
  have "spread target (kv # src) = spread (set_prop k v target) src"
    by (simp add: spread_Cons kv)
  also have "\<dots> = spread (target @ [(k, v)]) src"
    by (simp add: set_prop_new [OF new o])
  also have "\<dots> = (target @ [(k, v)]) @ src"
    using Cons.prems by (intro Cons.IH) (simp_all add: kv)
  finally show ?case by (simp add: kv)
qed

subsection \<open>JSON.parse after JSON.stringify\<close>





































lemma parse_chars_QuoteJSONString:
  "QuoteJSONString s @ rest = CHR 0x22 # concat (map quote_char s) @ CHR 0x22 # rest"
  by (simp add: QuoteJSONString_def)

























subsection \<open>The tool supplyData builds\<close>

lemma supplyData_func:
  "fst (supplyData rt this params st0) = Inr t \<Longrightarrow>
   tool_func t = createToolHandler rt this (getNodeParameter (toolType params) ''scrape'')"
  by (auto simp add: supplyData_def Let_def split: if_splits)

lemma supplyData_operation:
  "fst (supplyData rt this params st0) = Inr t \<Longrightarrow>
   getNodeParameter (toolType params) ''scrape'' \<in> set [''scrape'', ''map'', ''search'', ''crawl'']"
  by (auto simp add: supplyData_def Let_def split: if_splits)

text \<open>What an object schema lets through: fields of its shape only, each once.\<close>

lemma collect_fields_keys:
  "collect_fields rs = Inr fs \<Longrightarrow> set (map fst fs) \<subseteq> set (map fst rs) \<and>
     (distinct (map fst rs) \<longrightarrow> distinct (map fst fs))"
proof (induction rs arbitrary: fs rule: collect_fields.induct)
  case (3 k v rs)
  from "3.prems" obtain fs' where c: "collect_fields rs = Inr fs'"
    and fs: "fs = (case v of None \<Rightarrow> fs' | Some y \<Rightarrow> (k, y) # fs')"
    by (auto split: sum.splits)
  from "3.IH" [OF c] have sub: "set (map fst fs') \<subseteq> set (map fst rs)"
    and dist: "distinct (map fst rs) \<Longrightarrow> distinct (map fst fs')"
    by simp_all
  show ?case
  proof (cases v)
    case None
    with fs sub dist show ?thesis by auto
  next
    case (Some y)
    with fs sub dist show ?thesis by (simp add: subset_iff) blast
  qed
qed simp_all

lemma zod_parse_object_keys:
  assumes "zod_parse (ZObject shape) v = Inr (Some (JObj fs))"
  shows "set (map fst fs) \<subseteq> set (map fst shape)"
    and "distinct (map fst shape) \<Longrightarrow> distinct (map fst fs)"
proof -
  from assms obtain obj where
    c: "collect_fields (map (\<lambda>(k, s). (k, zod_parse s (get_prop obj k))) shape) = Inr fs"
    by (auto split: option.splits json.splits sum.splits)
  have m: "map fst (map (\<lambda>(k, s). (k, zod_parse s (get_prop obj k))) shape) = map fst shape"
    by (induction shape) auto
  from collect_fields_keys [OF c] show "set (map fst fs) \<subseteq> set (map fst shape)"
    and "distinct (map fst shape) \<Longrightarrow> distinct (map fst fs)"
    unfolding m by simp_all
qed

lemma schema_keys:
  "map fst (shape_of scrape_schema) =
     [''url'', ''formats'', ''onlyMainContent'', ''includeTags'', ''excludeTags'', ''waitFor'', ''mobile'']"
  "map fst (shape_of map_schema) =
     [''url'', ''search'', ''sitemap'', ''includeSubdomains'', ''limit'', ''ignoreQueryParameters'']"
  "map fst (shape_of search_schema) =
     [''query'', ''limit'', ''tbs'', ''filter'', ''location'', ''scrapeOptions'']"
  "map fst (shape_of crawl_schema) =
     [''url'', ''excludePaths'', ''includePaths'', ''maxDiscoveryDepth'', ''sitemap'', ''limit'',
      ''allowExternalLinks'', ''allowSubdomains'', ''crawlEntireDomain'', ''delay'',
      ''maxConcurrency'', ''deduplicateSimilarURLs'', ''ignoreQueryParameters'', ''scrapeOptions'']"
  by (simp_all add: scrape_schema_def map_schema_def search_schema_def crawl_schema_def)

text \<open>A key that starts with a letter is no array index.\<close>

lemma letter_key: "\<not> is_digit c \<Longrightarrow> \<not> is_array_index (c # cs)"
  by (simp add: is_array_index_def)

lemma plain_keys:
  "list_all (\<lambda>k. \<not> is_array_index k) (''integration'' # map fst (shape_of scrape_schema))"
  "list_all (\<lambda>k. \<not> is_array_index k) (''integration'' # map fst (shape_of map_schema))"
  "list_all (\<lambda>k. \<not> is_array_index k) (''integration'' # map fst (shape_of search_schema))"
  "list_all (\<lambda>k. \<not> is_array_index k) (''integration'' # map fst (shape_of crawl_schema))"
  unfolding schema_keys by (simp_all add: letter_key is_digit_def)

lemma ordered_keys_plain: "list_all (\<lambda>k. \<not> is_array_index k) ks \<Longrightarrow> ordered_keys ks"
  by (induction ks rule: ordered_keys.induct) simp_all

lemma supplyData_schema:
  assumes "fst (supplyData rt this params st0) = Inr t"
  shows "\<exists>shape. tool_schema t = ZObject shape \<and> distinct (map fst shape)
           \<and> ''integration'' \<notin> set (map fst shape)
           \<and> list_all (\<lambda>k. \<not> is_array_index k) (''integration'' # map fst shape)"
proof -
  have s: "scrape_schema = ZObject (shape_of scrape_schema)" "map_schema = ZObject (shape_of map_schema)"
    "search_schema = ZObject (shape_of search_schema)" "crawl_schema = ZObject (shape_of crawl_schema)"
    by (simp_all add: scrape_schema_def map_schema_def search_schema_def crawl_schema_def)
  have d: "distinct (map fst (shape_of scrape_schema)) \<and> ''integration'' \<notin> set (map fst (shape_of scrape_schema))"
    "distinct (map fst (shape_of map_schema)) \<and> ''integration'' \<notin> set (map fst (shape_of map_schema))"
    "distinct (map fst (shape_of search_schema)) \<and> ''integration'' \<notin> set (map fst (shape_of search_schema))"
    "distinct (map fst (shape_of crawl_schema)) \<and> ''integration'' \<notin> set (map fst (shape_of crawl_schema))"
    unfolding schema_keys by simp_all
  from assms have "tool_schema t \<in> {scrape_schema, map_schema, search_schema, crawl_schema}"
    by (auto simp add: supplyData_def Let_def split: if_splits)
  then show ?thesis
    using s d plain_keys by (elim insertE emptyE) metis+
qed

text \<open>
  What the handler receives from a call of the tool: an object whose keys are fields of
  the schema, each once, none of them \<^verbatim>\<open>integration\<close>; the marker followed by these
  fields is an object in property order.
\<close>

lemma tool_call_parsed:
  assumes "fst (supplyData rt this params st0) = Inr t"
    and "zod_parse (tool_schema t) (Some arg) = Inr (Some (JObj fs))"
  shows "tool_call t arg st =
           createToolHandler rt this (getNodeParameter (toolType params) ''scrape'') fs st"
    and "get_prop fs ''integration'' = None"
    and "distinct (map fst fs)"
    and "spread [(''integration'', JStr ''n8n-tool'')] fs = (''integration'', JStr ''n8n-tool'') # fs"
proof -
  obtain shape where sh: "tool_schema t = ZObject shape" "distinct (map fst shape)"
      "''integration'' \<notin> set (map fst shape)"
      "list_all (\<lambda>k. \<not> is_array_index k) (''integration'' # map fst shape)"
    using supplyData_schema [OF assms(1)] by blast
  have keys: "set (map fst fs) \<subseteq> set (map fst shape)" and dist: "distinct (map fst fs)"
    using zod_parse_object_keys [of shape "Some arg" fs] assms(2) sh(1,2) by simp_all
  show "tool_call t arg st =
      createToolHandler rt this (getNodeParameter (toolType params) ''scrape'') fs st"
    using assms(2) by (simp add: tool_call_def supplyData_func [OF assms(1)])
  show none: "get_prop fs ''integration'' = None"
    using keys sh(3) by (auto simp add: get_prop_def map_of_eq_None_iff)
  show "distinct (map fst fs)" by (rule dist)
  have new: "''integration'' \<notin> set (map fst fs)"
    using keys sh(3) by auto
  have "\<forall>k \<in> set (map fst fs). \<not> is_array_index k"
    using keys sh(4) unfolding list_all_iff by (meson list.set_intros(2) subsetD)
  then have "list_all (\<lambda>k. \<not> is_array_index k) (''integration'' # map fst fs)"
    using sh(4) by (simp add: list_all_iff)
  then have "ordered_keys (map fst ([(''integration'', JStr ''n8n-tool'')] @ fs))"
    using ordered_keys_plain by simp
  moreover have "distinct (map fst ([(''integration'', JStr ''n8n-tool'')] @ fs))"
    using new dist by simp
  ultimately have "spread [(''integration'', JStr ''n8n-tool'')] fs
      = [(''integration'', JStr ''n8n-tool'')] @ fs"
    by (rule spread_ordered [rotated])
  then show "spread [(''integration'', JStr ''n8n-tool'')] fs = (''integration'', JStr ''n8n-tool'') # fs"
    by simp
qed

lemma tool_call_rejected:
  assumes "fst (supplyData rt this params st0) = Inr t"
    and "\<nexists>fs. zod_parse (tool_schema t) (Some arg) = Inr (Some (JObj fs))"
  shows "tool_call t arg st = (Inl ToolInputParsingException, st)"
  using assms(2)
  by (auto simp add: tool_call_def split: sum.splits option.splits json.splits)

text \<open>The tools of the concrete runs, and two of their arguments parsed.\<close>

lemma supplyData_example:
  "v \<in> set [''scrape'', ''search'', ''crawl''] \<Longrightarrow>
   fst (supplyData rt this \<lparr>toolType = Some v, description = None\<rparr> st0) =
     Inr \<lparr>tool_name = ''firecrawl_'' @ v,
          tool_description =
            (if v = ''scrape'' then scrape_description
             else if v = ''search'' then search_description else crawl_description),
          tool_schema =
            (if v = ''scrape'' then scrape_schema
             else if v = ''search'' then search_schema else crawl_schema),
          tool_func = createToolHandler rt this v\<rparr>"
  by (auto simp add: supplyData_def getNodeParameter_def js_or_def Let_def)

lemma scrape_parse_example:
  "zod_parse scrape_schema
     (Some (JObj [(''url'', JStr ''https://example.com''), (''integration'', JStr ''caller'')])) =
   Inr (Some (JObj [(''url'', JStr ''https://example.com'')]))"
  by (simp add: scrape_schema_def get_prop_def)

lemma crawl_parse_example:
  "zod_parse crawl_schema
     (Some (JObj [(''url'', JStr ''https://example.com/blog''), (''limit'', JNum (Finite False 2 1))])) =
   Inr (Some (JObj [(''url'', JStr ''https://example.com/blog''), (''limit'', JNum (Finite False 2 1))]))"
  by (simp add: crawl_schema_def get_prop_def)

subsection \<open>The integration marker\<close>

text \<open>
  C1. The handler is the \<^verbatim>\<open>func\<close> of the tool \<^verbatim>\<open>supplyData\<close> builds and runs only when
  the tool is called. The tool parses its argument with the schema first, an object
  schema lets through the fields of its shape only, and none of the four shapes has a
  field \<^verbatim>\<open>integration\<close>. So whatever the caller sends, also an argument with a key
  \<^verbatim>\<open>integration\<close> of its own, every request a call of the tool sends carries
  \<^verbatim>\<open>integration: "n8n-tool"\<close>.
\<close>

theorem integration_marker_of_every_request:
  assumes "fst (supplyData rt this params st0) = Inr t"
  shows "\<forall>r \<in> set (http_requests (new_events st (snd (tool_call t arg st)))).
           get_prop (req_body r) ''integration'' = Some (JStr ''n8n-tool'')"
proof (cases "\<exists>fs. zod_parse (tool_schema t) (Some arg) = Inr (Some (JObj fs))")
  case False
  then show ?thesis
    by (simp add: tool_call_rejected [OF assms] new_events_def)
next
  case True
  then obtain fs where fs: "zod_parse (tool_schema t) (Some arg) = Inr (Some (JObj fs))"
    by blast
  show ?thesis
    unfolding tool_call_parsed(1) [OF assms fs]
    by (auto simp add: handler_requests request_options_def tool_call_parsed(4) [OF assms fs]
        get_prop_def split: sum.splits)
qed

text \<open>
  The theorem at a call of the scrape tool whose argument has an \<^verbatim>\<open>integration\<close> key
  of its own: one request is sent, and its body is the marker and the URL.
\<close>

theorem integration_marker_of_every_request_witness:
  "map req_body (http_requests (new_events initial_state
     (snd (tool_call
        \<lparr>tool_name = ''firecrawl_scrape'', tool_description = scrape_description,
          tool_schema = scrape_schema,
          tool_func = createToolHandler example_runtime
            (stub_host (Inr example_credentials) (Inr (JObj []))) ''scrape''\<rparr>
        (JObj [(''url'', JStr ''https://example.com''), (''integration'', JStr ''caller'')])
        initial_state)))) =
     [[(''integration'', JStr ''n8n-tool''), (''url'', JStr ''https://example.com'')]]
   \<and> get_prop [(''integration'', JStr ''n8n-tool''), (''url'', JStr ''https://example.com'')]
        ''integration'' = Some (JStr ''n8n-tool'')"
  using integration_marker_of_every_request [of example_runtime
      "stub_host (Inr example_credentials) (Inr (JObj []))"
      "\<lparr>toolType = Some ''scrape'', description = None\<rparr>" initial_state
      "\<lparr>tool_name = ''firecrawl_scrape'', tool_description = scrape_description,
        tool_schema = scrape_schema,
        tool_func = createToolHandler example_runtime
          (stub_host (Inr example_credentials) (Inr (JObj []))) ''scrape''\<rparr>"
      initial_state
      "JObj [(''url'', JStr ''https://example.com''), (''integration'', JStr ''caller'')]"]
  by (simp add: supplyData_example tool_call_def scrape_parse_example handler_requests
      stub_host_def request_options_def spread_def set_prop_def stays_before_def letter_key
      is_digit_def get_prop_def)

subsection \<open>Failures and the output record\<close>

text \<open>The constructor and \<^verbatim>\<open>JSON.stringify\<close> at the texts of the concrete runs.\<close>

lemma map_input_rendering:
  \<open>JSON_stringify (JObj [(''url'', JStr ''https://example.com'')]) 0 =
     ''{"url":"https://example.com"}''\<close>
  by code_simp

lemma refused_map_error:
  \<open>new_NodeOperationError example_runtime ''Firecrawl''
     ''Firecrawl API error for map: connect ECONNREFUSED. Input: {"url":"https://example.com"}'' =
   NodeOperationError ''Firecrawl''
     ''The service refused the connection - perhaps it is offline''
     [''Firecrawl API error for map: connect ECONNREFUSED. Input: {"url":"https://example.com"}'']\<close>
  by code_simp

text \<open>
  C2, as the code has it. The claim says every thrown error is recorded before it is
  raised again. The \<^verbatim>\<open>catch\<close> block throws a \<^verbatim>\<open>NodeOperationError\<close> on at once;
  for every other failure of the outbound call the handler throws an error \<open>err\<close>, and the
  last event of the invocation is the call of \<^verbatim>\<open>addOutputData\<close> with \<open>err\<close>, under the
  index \<^verbatim>\<open>addInputData\<close> returned for this invocation's input (its first event).
\<close>

theorem failure_recorded_under_same_index:
  assumes "fst (makeFirecrawlRequest this op input (snd (addInputData input st))) = Inl e"
    and "\<not> is_NodeOperationError e"
  shows "\<exists>err. fst (createToolHandler rt this op input st) = Inl err
           \<and> hd (new_events st (snd (createToolHandler rt this op input st))) =
               AddInputData (runIndex st) input
           \<and> last (new_events st (snd (createToolHandler rt this op input st))) =
               AddOutputData (runIndex st) (OutputError err)"
proof -
  from assms(1) have e: "fst (makeFirecrawlRequest this op input st) = Inl e"
    by (simp add: makeFirecrawlRequest_result)
  show ?thesis
    using assms(2) by (simp add: handler_result handler_new_events e)
qed

text \<open>The theorem at a refused connection while mapping a site.\<close>

theorem failure_recorded_under_same_index_witness:
  \<open>fst (makeFirecrawlRequest (stub_host (Inr example_credentials) (Inl (OtherError ''connect ECONNREFUSED'')))
      ''map'' [(''url'', JStr ''https://example.com'')]
      (snd (addInputData [(''url'', JStr ''https://example.com'')] initial_state)))
     = Inl (OtherError ''connect ECONNREFUSED'')
   \<and> \<not> is_NodeOperationError (OtherError ''connect ECONNREFUSED'')
   \<and> hd (events (snd (createToolHandler example_runtime
         (stub_host (Inr example_credentials) (Inl (OtherError ''connect ECONNREFUSED'')))
         ''map'' [(''url'', JStr ''https://example.com'')] initial_state))) =
       AddInputData 0 [(''url'', JStr ''https://example.com'')]
   \<and> last (events (snd (createToolHandler example_runtime
         (stub_host (Inr example_credentials) (Inl (OtherError ''connect ECONNREFUSED'')))
         ''map'' [(''url'', JStr ''https://example.com'')] initial_state))) =
       AddOutputData 0 (OutputError (NodeOperationError ''Firecrawl''
         ''The service refused the connection - perhaps it is offline''
         [''Firecrawl API error for map: connect ECONNREFUSED. Input: {"url":"https://example.com"}'']))\<close>
  using failure_recorded_under_same_index [of
      "stub_host (Inr example_credentials) (Inl (OtherError ''connect ECONNREFUSED''))"
      "''map''" "[(''url'', JStr ''https://example.com'')]" initial_state
      "OtherError ''connect ECONNREFUSED''" example_runtime]
  by (simp add: handler_result handler_new_events new_events_def makeFirecrawlRequest_result
      stub_host_def initial_state_def is_NodeOperationError_def error_message_def
      map_input_rendering refused_map_error)

text \<open>
  C2 as stated fails: when the credentials cannot be read and the host throws a
  \<^verbatim>\<open>NodeOperationError\<close>, the handler throws it on and the only event of the invocation
  is the input record; nothing is written to the output channel.
\<close>

theorem passed_through_error_not_recorded_counterexample:
  "createToolHandler example_runtime
     (stub_host (Inl (NodeOperationError ''Firecrawl'' ''Node does not have any credentials set'' []))
        (Inr JNull))
     ''scrape'' [(''url'', JStr ''https://example.com'')] initial_state =
   (Inl (NodeOperationError ''Firecrawl'' ''Node does not have any credentials set'' []),
    \<lparr>runIndex = 1, events = [AddInputData 0 [(''url'', JStr ''https://example.com'')]]\<rparr>)"
  by (simp add: createToolHandler_def makeFirecrawlRequest_def addInputData_def stub_host_def
      initial_state_def is_NodeOperationError_def)

subsection \<open>The request of one invocation\<close>

text \<open>
  C3 as stated fails: the handler reads the credentials before it sends anything. When
  the host cannot give them, an invocation of the scrape tool on an argument its schema
  accepts records the input and sends no request.
\<close>

theorem no_request_without_credentials_counterexample:
  "zod_parse scrape_schema
     (Some (JObj [(''url'', JStr ''https://example.com''), (''integration'', JStr ''caller'')])) =
     Inr (Some (JObj [(''url'', JStr ''https://example.com'')]))
   \<and> new_events initial_state (snd (tool_call
        \<lparr>tool_name = ''firecrawl_scrape'', tool_description = scrape_description,
          tool_schema = scrape_schema,
          tool_func = createToolHandler example_runtime
            (stub_host (Inl (NodeOperationError ''Firecrawl'' ''Node does not have any credentials set'' []))
               (Inr JNull)) ''scrape''\<rparr>
        (JObj [(''url'', JStr ''https://example.com''), (''integration'', JStr ''caller'')])
        initial_state)) =
     [AddInputData 0 [(''url'', JStr ''https://example.com'')]]
   \<and> http_requests [AddInputData 0 [(''url'', JStr ''https://example.com'')]] = []"
  by (simp add: scrape_parse_example tool_call_def handler_new_events makeFirecrawlRequest_result
      stub_host_def initial_state_def is_NodeOperationError_def)

text \<open>
  C3, as the code has it. Let \<open>t\<close> be the tool \<^verbatim>\<open>supplyData\<close> builds, so that the
  configured operation is one of the four, and let the schema of \<open>t\<close> accept the argument
  and parse it to \<open>input\<close>. When the credentials cannot be read, the call sends nothing.
  When they can, it sends exactly one request: a POST to the base URL of the credentials
  (the address \<^verbatim>\<open>https://api.firecrawl.dev/v2\<close> when they have none or an empty one),
  a slash and the operation name, with the three headers, and with the body that is the
  integration marker followed by the fields of \<open>input\<close>.
\<close>

theorem one_post_per_tool_call:
  assumes "fst (supplyData rt this params st0) = Inr t"
    and "zod_parse (tool_schema t) (Some arg) = Inr (Some (JObj input))"
  shows "(case toolType params of None \<Rightarrow> ''scrape'' | Some v \<Rightarrow> v)
            \<in> set [''scrape'', ''map'', ''search'', ''crawl'']
     \<and> http_requests (new_events st (snd (tool_call t arg st))) =
         (case getCredentials this ''firecrawlApi'' of
            Inl e \<Rightarrow> []
          | Inr creds \<Rightarrow>
              [\<lparr>req_method = ''POST'',
                req_url =
                  (case baseUrl creds of
                     None \<Rightarrow> ''https://api.firecrawl.dev/v2''
                   | Some b \<Rightarrow> if b = [] then ''https://api.firecrawl.dev/v2'' else b)
                  @ ''/'' @ (case toolType params of None \<Rightarrow> ''scrape'' | Some v \<Rightarrow> v),
                req_headers =
                  [(''Authorization'', ''Bearer '' @ apiKey creds),
                   (''Content-Type'', ''application/json''),
                   (''Accept'', ''application/json'')],
                req_body = (''integration'', JStr ''n8n-tool'') # input,
                req_json = True\<rparr>])"
proof -
  have op: "getNodeParameter (toolType params) ''scrape'' =
      (case toolType params of None \<Rightarrow> ''scrape'' | Some v \<Rightarrow> v)"
    by (simp add: getNodeParameter_def)
  have "(case toolType params of None \<Rightarrow> ''scrape'' | Some v \<Rightarrow> v)
      \<in> set [''scrape'', ''map'', ''search'', ''crawl'']"
    using supplyData_operation [OF assms(1)] unfolding op .
  moreover have "http_requests (new_events st (snd (tool_call t arg st))) =
      (case getCredentials this ''firecrawlApi'' of
         Inl e \<Rightarrow> []
       | Inr creds \<Rightarrow>
           [request_options creds (case toolType params of None \<Rightarrow> ''scrape'' | Some v \<Rightarrow> v) input])"
    unfolding tool_call_parsed(1) [OF assms] handler_requests op ..
  ultimately show ?thesis
    by (simp add: request_options_def or_default_def tool_call_parsed(4) [OF assms]
        split: sum.splits option.splits)
qed

text \<open>
  The theorem at a crawl of a blog with a limit of 20 pages (20 is 2 times ten to the 1),
  with credentials that name a base URL of their own.
\<close>

theorem one_post_per_tool_call_witness:
  "http_requests (new_events initial_state (snd (tool_call
      \<lparr>tool_name = ''firecrawl_crawl'', tool_description = crawl_description,
        tool_schema = crawl_schema,
        tool_func = createToolHandler example_runtime
          (stub_host (Inr \<lparr>baseUrl = Some ''https://firecrawl.example.org/v2'', apiKey = ''fc-test''\<rparr>)
             (Inr (JObj [(''id'', JStr ''job-123'')]))) ''crawl''\<rparr>
      (JObj [(''url'', JStr ''https://example.com/blog''), (''limit'', JNum (Finite False 2 1))])
      initial_state))) =
     [\<lparr>req_method = ''POST'',
       req_url = ''https://firecrawl.example.org/v2/crawl'',
       req_headers =
         [(''Authorization'', ''Bearer fc-test''),
          (''Content-Type'', ''application/json''),
          (''Accept'', ''application/json'')],
       req_body = [(''integration'', JStr ''n8n-tool''),
                   (''url'', JStr ''https://example.com/blog''),
                   (''limit'', JNum (Finite False 2 1))],
       req_json = True\<rparr>]"
  using one_post_per_tool_call [of example_runtime
      "stub_host (Inr \<lparr>baseUrl = Some ''https://firecrawl.example.org/v2'', apiKey = ''fc-test''\<rparr>)
         (Inr (JObj [(''id'', JStr ''job-123'')]))"
      "\<lparr>toolType = Some ''crawl'', description = None\<rparr>" initial_state
      "\<lparr>tool_name = ''firecrawl_crawl'', tool_description = crawl_description,
        tool_schema = crawl_schema,
        tool_func = createToolHandler example_runtime
          (stub_host (Inr \<lparr>baseUrl = Some ''https://firecrawl.example.org/v2'', apiKey = ''fc-test''\<rparr>)
             (Inr (JObj [(''id'', JStr ''job-123'')]))) ''crawl''\<rparr>"
      "JObj [(''url'', JStr ''https://example.com/blog''), (''limit'', JNum (Finite False 2 1))]"
      "[(''url'', JStr ''https://example.com/blog''), (''limit'', JNum (Finite False 2 1))]"
      initial_state]
  by (simp add: supplyData_example crawl_parse_example stub_host_def)

subsection \<open>The string a successful invocation returns\<close>





lemma job_read:
  \<open>JSON_parse example_runtime ''{\<newline>  "id": "job-123",\<newline>  "pages": 2.5\<newline>}'' =
     Some (JObj [(''id'', JStr ''job-123''), (''pages'', JNum (Finite False 25 (- 1)))])\<close>
  by code_simp





subsection \<open>An operation that is none of the four\<close>

text \<open>The constructor at the texts of the concrete runs.\<close>

lemma enoent_error:
  "new_NodeOperationError example_runtime ''Firecrawl'' ''Unknown operation: enoent'' =
   NodeOperationError ''Firecrawl'' ''The file or directory does not exist''
     [''Unknown operation: enoent'']"
  by code_simp

lemma enoent_not_named: "\<not> sublist ''enoent'' ''The file or directory does not exist''"
  by code_simp

lemma extract_no_code:
  "find (\<lambda>entry. sublist (toUpperCase example_runtime (fst entry))
                   (toUpperCase example_runtime ''Unknown operation: extract''))
     (COMMON_ERRORS example_runtime) = None"
  by code_simp

text \<open>
  C5 as stated fails: the error is built by the constructor of \<^verbatim>\<open>n8n-workflow\<close>, which
  replaces a message in which a common error code occurs. With \<^verbatim>\<open>toolType\<close> set to
  \<^verbatim>\<open>enoent\<close>, the message of the error is the text for \<^verbatim>\<open>ENOENT\<close>, and the
  configured value does not occur in it.
\<close>

theorem unknown_operation_not_named_counterexample:
  "supplyData example_runtime (stub_host (Inr example_credentials) (Inr JNull))
     \<lparr>toolType = Some ''enoent'', description = None\<rparr> initial_state =
     (Inl (NodeOperationError ''Firecrawl'' ''The file or directory does not exist''
             [''Unknown operation: enoent'']), initial_state)
   \<and> \<not> sublist ''enoent'' ''The file or directory does not exist''"
  by (simp add: supplyData_def getNodeParameter_def Let_def stub_host_def enoent_error
      enoent_not_named)

text \<open>
  C5, as the code has it. When the configured \<^verbatim>\<open>toolType\<close> is none of the four
  operations, \<^verbatim>\<open>supplyData\<close> ends with a \<^verbatim>\<open>NodeOperationError\<close> of the node (the
  function is \<^verbatim>\<open>async\<close>: the promise it returns is rejected) and the state is the one
  it started from, so no request was sent. The error is built from the text
  \<^verbatim>\<open>Unknown operation: \<close> followed by the configured value. When no common error code
  occurs in that text, it is the message of the error and ends with the value. Otherwise
  the message is the descriptive text of the first such code, and the text with the
  value is the one entry of the error's \<^verbatim>\<open>messages\<close>.
\<close>

theorem unknown_operation_rejected:
  assumes "toolType params = Some v"
    and "v \<notin> set [''scrape'', ''map'', ''search'', ''crawl'']"
  shows "\<exists>msg ms. supplyData rt this params st = (Inl (NodeOperationError (getNode this) msg ms), st)
     \<and> (case find (\<lambda>entry. sublist (toUpperCase rt (fst entry))
                             (toUpperCase rt (''Unknown operation: '' @ v)))
               (COMMON_ERRORS rt) of
          None \<Rightarrow> msg = ''Unknown operation: '' @ v \<and> ms = [] \<and> suffix v msg
        | Some entry \<Rightarrow> msg = snd entry \<and> ms = [''Unknown operation: '' @ v])
     \<and> http_requests (new_events st (snd (supplyData rt this params st))) = []"
proof -
  have s: "supplyData rt this params st =
      (Inl (new_NodeOperationError rt (getNode this) (''Unknown operation: '' @ v)), st)"
    using assms by (simp add: supplyData_def getNodeParameter_def Let_def)
  obtain msg ms where m:
    "new_NodeOperationError rt (getNode this) (''Unknown operation: '' @ v) =
       NodeOperationError (getNode this) msg ms"
    "case find (\<lambda>entry. sublist (toUpperCase rt (fst entry))
                          (toUpperCase rt (''Unknown operation: '' @ v)))
            (COMMON_ERRORS rt) of
       None \<Rightarrow> msg = ''Unknown operation: '' @ v \<and> ms = []
     | Some entry \<Rightarrow> msg = snd entry \<and> ms = [''Unknown operation: '' @ v]"
    using new_NodeOperationError_cases [of rt "getNode this" "''Unknown operation: '' @ v"]
    by blast
  from m(2) have "case find (\<lambda>entry. sublist (toUpperCase rt (fst entry))
                          (toUpperCase rt (''Unknown operation: '' @ v)))
            (COMMON_ERRORS rt) of
       None \<Rightarrow> msg = ''Unknown operation: '' @ v \<and> ms = [] \<and> suffix v msg
     | Some entry \<Rightarrow> msg = snd entry \<and> ms = [''Unknown operation: '' @ v]"
    by (auto simp add: suffix_def split: option.splits)
  then show ?thesis
    unfolding s m(1) by (simp add: new_events_def)
qed

text \<open>The theorem at the operation name \<^verbatim>\<open>extract\<close>, in which no error code occurs.\<close>

theorem unknown_operation_rejected_witness:
  "''extract'' \<notin> set [''scrape'', ''map'', ''search'', ''crawl'']
   \<and> supplyData example_runtime (stub_host (Inr example_credentials) (Inr JNull))
        \<lparr>toolType = Some ''extract'', description = None\<rparr> initial_state =
       (Inl (NodeOperationError ''Firecrawl'' ''Unknown operation: extract'' []), initial_state)"
  using unknown_operation_rejected [of "\<lparr>toolType = Some ''extract'', description = None\<rparr>"
      "''extract''" example_runtime "stub_host (Inr example_credentials) (Inr JNull)" initial_state]
  by (auto simp add: stub_host_def extract_no_code)

subsection \<open>The error of a failed invocation\<close>

text \<open>The constructor and \<^verbatim>\<open>JSON.stringify\<close> at the texts of the concrete runs.\<close>

lemma search_input_rendering:
  \<open>JSON_stringify (JObj [(''query'', JStr ''top AI companies''), (''limit'', JNum (Finite False 5 0))]) 0 =
     ''{"query":"top AI companies","limit":5}''\<close>
  by code_simp

lemma refused_search_error:
  \<open>new_NodeOperationError example_runtime ''Firecrawl''
     ''Firecrawl API error for search: connect ECONNREFUSED 127.0.0.1:3002. Input: {"query":"top AI companies","limit":5}'' =
   NodeOperationError ''Firecrawl''
     ''The service refused the connection - perhaps it is offline''
     [''Firecrawl API error for search: connect ECONNREFUSED 127.0.0.1:3002. Input: {"query":"top AI companies","limit":5}'']\<close>
  by code_simp

lemma refused_text_names_nothing:
  \<open>\<not> sublist ''search'' ''The service refused the connection - perhaps it is offline''
   \<and> \<not> sublist ''{"query":"top AI companies","limit":5}''
         ''The service refused the connection - perhaps it is offline''\<close>
  by code_simp

lemma payment_no_code:
  \<open>find (\<lambda>entry. sublist (toUpperCase example_runtime (fst entry))
                   (toUpperCase example_runtime
                      ''Firecrawl API error for search: Request failed with status code 402. Input: {"query":"top AI companies","limit":5}''))
     (COMMON_ERRORS example_runtime) = None\<close>
  by code_simp

text \<open>
  C6 as stated fails, in the scenario the specification itself names: when the
  connection is refused, the text the handler composes contains \<^verbatim>\<open>ECONNREFUSED\<close>, the
  constructor replaces it, and the message of the error thrown contains neither the
  operation name nor the rendering of the input.
\<close>

theorem refused_connection_message_counterexample:
  \<open>fst (createToolHandler example_runtime
         (stub_host (Inr example_credentials) (Inl (OtherError ''connect ECONNREFUSED 127.0.0.1:3002'')))
         ''search'' [(''query'', JStr ''top AI companies''), (''limit'', JNum (Finite False 5 0))]
         initial_state) =
     Inl (NodeOperationError ''Firecrawl''
       ''The service refused the connection - perhaps it is offline''
       [''Firecrawl API error for search: connect ECONNREFUSED 127.0.0.1:3002. Input: {"query":"top AI companies","limit":5}''])
   \<and> \<not> sublist ''search'' ''The service refused the connection - perhaps it is offline''
   \<and> \<not> sublist
         (JSON_stringify (JObj [(''query'', JStr ''top AI companies''), (''limit'', JNum (Finite False 5 0))]) 0)
         ''The service refused the connection - perhaps it is offline''\<close>
  by (simp add: handler_result makeFirecrawlRequest_result stub_host_def is_NodeOperationError_def
      error_message_def search_input_rendering refused_search_error refused_text_names_nothing)

text \<open>
  C6, as the code has it. When the outbound call fails with an error that is no
  \<^verbatim>\<open>NodeOperationError\<close>, the handler composes a text from the operation name, the
  message of the failure and \<^verbatim>\<open>JSON.stringify(input)\<close>, in which the operation name
  and the rendering of the input both occur, and throws the \<^verbatim>\<open>NodeOperationError\<close> of
  the node built from it. When no common error code occurs in the composed text, it is
  the message of the error. Otherwise the message is the descriptive text of the first
  such code, and the composed text is the one entry of the error's \<^verbatim>\<open>messages\<close>.
\<close>

theorem wrapped_error_message:
  assumes "fst (makeFirecrawlRequest this op input (snd (addInputData input st))) = Inl e"
    and "\<not> is_NodeOperationError e"
  shows "\<exists>composed msg ms.
           fst (createToolHandler rt this op input st) = Inl (NodeOperationError (getNode this) msg ms)
           \<and> composed = ''Firecrawl API error for '' @ op @ '': '' @ error_message e
                     @ ''. Input: '' @ JSON_stringify (JObj input) 0
           \<and> sublist op composed
           \<and> sublist (JSON_stringify (JObj input) 0) composed
           \<and> (case find (\<lambda>entry. sublist (toUpperCase rt (fst entry)) (toUpperCase rt composed))
                     (COMMON_ERRORS rt) of
                None \<Rightarrow> msg = composed \<and> ms = []
              | Some entry \<Rightarrow> msg = snd entry \<and> ms = [composed])"
proof -
  let ?composed = "''Firecrawl API error for '' @ op @ '': '' @ error_message e
                     @ ''. Input: '' @ JSON_stringify (JObj input) 0"
  from assms(1) have e: "fst (makeFirecrawlRequest this op input st) = Inl e"
    by (simp add: makeFirecrawlRequest_result)
  have 1: "sublist op ?composed"
    by (rule sublist_appendI)
  have 2: "sublist (JSON_stringify (JObj input) 0) ?composed"
    unfolding sublist_def
    by (rule exI [of _ "''Firecrawl API error for '' @ op @ '': '' @ error_message e @ ''. Input: ''"],
        rule exI [of _ "[]"]) simp
  obtain msg ms where m:
    "new_NodeOperationError rt (getNode this) ?composed = NodeOperationError (getNode this) msg ms"
    "case find (\<lambda>entry. sublist (toUpperCase rt (fst entry)) (toUpperCase rt ?composed))
            (COMMON_ERRORS rt) of
       None \<Rightarrow> msg = ?composed \<and> ms = []
     | Some entry \<Rightarrow> msg = snd entry \<and> ms = [?composed]"
    using new_NodeOperationError_cases [of rt "getNode this" ?composed] by blast
  have "fst (createToolHandler rt this op input st) = Inl (NodeOperationError (getNode this) msg ms)"
    using assms(2) m(1) by (simp add: handler_result e)
  with 1 2 m(2) show ?thesis by blast
qed

text \<open>The theorem at a search the service answers with a status of 402.\<close>

theorem wrapped_error_message_witness:
  \<open>\<not> is_NodeOperationError (OtherError ''Request failed with status code 402'')
   \<and> fst (createToolHandler example_runtime
         (stub_host (Inr example_credentials) (Inl (OtherError ''Request failed with status code 402'')))
         ''search'' [(''query'', JStr ''top AI companies''), (''limit'', JNum (Finite False 5 0))]
         initial_state) =
       Inl (NodeOperationError ''Firecrawl''
         ''Firecrawl API error for search: Request failed with status code 402. Input: {"query":"top AI companies","limit":5}''
         [])\<close>
  using wrapped_error_message [of
      "stub_host (Inr example_credentials) (Inl (OtherError ''Request failed with status code 402''))"
      "''search''" "[(''query'', JStr ''top AI companies''), (''limit'', JNum (Finite False 5 0))]"
      initial_state "OtherError ''Request failed with status code 402''" example_runtime]
  by (auto simp add: makeFirecrawlRequest_result stub_host_def is_NodeOperationError_def
      error_message_def search_input_rendering payment_no_code)

subsection \<open>An error that is passed through\<close>

text \<open>
  C7. When the outbound call fails with a \<^verbatim>\<open>NodeOperationError\<close>, the handler throws
  that same error: same node, same message, same \<^verbatim>\<open>messages\<close>, nothing wrapped around
  it.
\<close>

theorem passed_through_unchanged:
  assumes "fst (makeFirecrawlRequest this op input (snd (addInputData input st))) =
             Inl (NodeOperationError n m ms)"
  shows "fst (createToolHandler rt this op input st) = Inl (NodeOperationError n m ms)"
proof -
  from assms have e: "fst (makeFirecrawlRequest this op input st) = Inl (NodeOperationError n m ms)"
    by (simp add: makeFirecrawlRequest_result)
  show ?thesis
    by (simp add: handler_result e is_NodeOperationError_def)
qed

text \<open>The theorem at a host that has no credentials set.\<close>

theorem passed_through_unchanged_witness:
  "fst (createToolHandler example_runtime
     (stub_host (Inl (NodeOperationError ''Firecrawl'' ''Node does not have any credentials set'' []))
        (Inr JNull))
     ''scrape'' [(''url'', JStr ''https://example.com'')] initial_state) =
   Inl (NodeOperationError ''Firecrawl'' ''Node does not have any credentials set'' [])"
  using passed_through_unchanged [of
      "stub_host (Inl (NodeOperationError ''Firecrawl'' ''Node does not have any credentials set'' []))
        (Inr JNull)"
      "''scrape''" "[(''url'', JStr ''https://example.com'')]" initial_state
      "''Firecrawl''" "''Node does not have any credentials set''" "[]" example_runtime]
  by (simp add: makeFirecrawlRequest_result stub_host_def)

subsection \<open>The description of the tool\<close>

text \<open>
  C8. For each of the four operations, a custom description that is not empty is the
  description of the tool \<^verbatim>\<open>supplyData\<close> builds.
\<close>

theorem custom_description_used:
  assumes "getNodeParameter (toolType params) ''scrape'' \<in> set [''scrape'', ''map'', ''search'', ''crawl'']"
    and "description params = Some d"
    and "d \<noteq> []"
  shows "\<exists>t. fst (supplyData rt this params st) = Inr t \<and> tool_description t = d"
  using assms
  by (auto simp add: supplyData_def getNodeParameter_def js_or_def Let_def)

text \<open>The theorem at the map tool with a one-line description.\<close>

theorem custom_description_used_witness:
  "map_sum id tool_description
     (fst (supplyData example_runtime (stub_host (Inr example_credentials) (Inr JNull))
        \<lparr>toolType = Some ''map'', description = Some ''Use this to list the pages of a site''\<rparr>
        initial_state)) =
   Inr ''Use this to list the pages of a site''"
  using custom_description_used [of
      "\<lparr>toolType = Some ''map'', description = Some ''Use this to list the pages of a site''\<rparr>"
      "''Use this to list the pages of a site''" example_runtime
      "stub_host (Inr example_credentials) (Inr JNull)" initial_state]
  by (auto simp add: getNodeParameter_def)

subsection \<open>The parameter schemas\<close>

lemma zod_parse_undescribed: "zod_parse (undescribed s) v = zod_parse s v"
proof (induction s arbitrary: v rule: undescribed.induct)
  case (3 s)
  show ?case by (simp add: 3 cong: option.case_cong json.case_cong)
next
  case (4 shape)
  have "map (\<lambda>(k, s). (k, zod_parse s (get_prop obj k))) (map (\<lambda>(k, s). (k, undescribed s)) shape)
      = map (\<lambda>(k, s). (k, zod_parse s (get_prop obj k))) shape" for obj
    using 4 by (auto simp add: case_prod_unfold)
  then show ?case by (simp del: map_map split: option.splits json.splits)
qed (simp_all split: option.splits)

text \<open>The two nested schemas and the fields of the scrape schema, evaluated.\<close>

lemma search_scrapeOptions:
  "field_schema search_schema ''scrapeOptions'' =
     Some (ZDescribe
       (ZOptional (ZObject
         [(''formats'',
             ZOptional (ZOptional
               (ZArray (ZEnum [''markdown'', ''html'', ''rawHtml'', ''links'', ''screenshot''])))),
          (''onlyMainContent'', ZOptional (ZOptional ZBoolean)),
          (''includeTags'', ZOptional (ZOptional (ZArray (ZString None)))),
          (''excludeTags'', ZOptional (ZOptional (ZArray (ZString None)))),
          (''waitFor'', ZOptional (ZOptional ZNumber)),
          (''mobile'', ZOptional (ZOptional ZBoolean))]))
       ''Options for scraping each search result'')"
  by (simp add: field_schema_def search_schema_def)

lemma crawl_scrapeOptions:
  "field_schema crawl_schema ''scrapeOptions'' =
     Some (ZDescribe
       (ZOptional (ZObject
         [(''formats'',
             ZOptional (ZOptional
               (ZArray (ZEnum [''markdown'', ''html'', ''rawHtml'', ''links'', ''screenshot''])))),
          (''onlyMainContent'', ZOptional (ZOptional ZBoolean)),
          (''includeTags'', ZOptional (ZOptional (ZArray (ZString None)))),
          (''excludeTags'', ZOptional (ZOptional (ZArray (ZString None)))),
          (''waitFor'', ZOptional (ZOptional ZNumber)),
          (''mobile'', ZOptional (ZOptional ZBoolean))]))
       ''Options for scraping each page during the crawl'')"
  by (simp add: field_schema_def crawl_schema_def)

lemma scrape_declared_fields:
  "declared_fields scrape_schema =
     [(''url'', False, ZString None),
      (''formats'', True,
         ZArray (ZEnum [''markdown'', ''html'', ''rawHtml'', ''links'', ''screenshot''])),
      (''onlyMainContent'', True, ZBoolean),
      (''includeTags'', True, ZArray (ZString None)),
      (''excludeTags'', True, ZArray (ZString None)),
      (''waitFor'', True, ZNumber),
      (''mobile'', True, ZBoolean)]"
  by (simp add: declared_fields_def scrape_schema_def)

lemma scrapeOptions_declared_fields:
  "declared_fields (ZDescribe
       (ZOptional (ZObject
         [(''formats'',
             ZOptional (ZOptional
               (ZArray (ZEnum [''markdown'', ''html'', ''rawHtml'', ''links'', ''screenshot''])))),
          (''onlyMainContent'', ZOptional (ZOptional ZBoolean)),
          (''includeTags'', ZOptional (ZOptional (ZArray (ZString None)))),
          (''excludeTags'', ZOptional (ZOptional (ZArray (ZString None)))),
          (''waitFor'', ZOptional (ZOptional ZNumber)),
          (''mobile'', ZOptional (ZOptional ZBoolean))])) d) =
     [(''formats'', True,
         ZArray (ZEnum [''markdown'', ''html'', ''rawHtml'', ''links'', ''screenshot''])),
      (''onlyMainContent'', True, ZBoolean),
      (''includeTags'', True, ZArray (ZString None)),
      (''excludeTags'', True, ZArray (ZString None)),
      (''waitFor'', True, ZNumber),
      (''mobile'', True, ZBoolean)]"
  by (simp add: declared_fields_def)

lemma scrape_fields_filtered:
  "filter (\<lambda>f. fst f \<in> set (map fst
       [(''formats'', True,
           ZArray (ZEnum [''markdown'', ''html'', ''rawHtml'', ''links'', ''screenshot''])),
        (''onlyMainContent'', True, ZBoolean),
        (''includeTags'', True, ZArray (ZString None)),
        (''excludeTags'', True, ZArray (ZString None)),
        (''waitFor'', True, ZNumber),
        (''mobile'', True, ZBoolean)]))
     (declared_fields scrape_schema) =
     [(''formats'', True,
         ZArray (ZEnum [''markdown'', ''html'', ''rawHtml'', ''links'', ''screenshot''])),
      (''onlyMainContent'', True, ZBoolean),
      (''includeTags'', True, ZArray (ZString None)),
      (''excludeTags'', True, ZArray (ZString None)),
      (''waitFor'', True, ZNumber),
      (''mobile'', True, ZBoolean)]"
  by (simp add: scrape_declared_fields)

text \<open>
  C9. The \<^verbatim>\<open>scrapeOptions\<close> fields of the search schema and of the crawl schema hold
  the same object shape, field for field; they are the same schema once the description
  of the field itself (the one thing in which they differ) is set aside, and they parse
  every value alike. Both are optional; both declare the six fields
  \<^verbatim>\<open>formats\<close> (an array over the five formats), \<^verbatim>\<open>onlyMainContent\<close>,
  \<^verbatim>\<open>includeTags\<close>, \<^verbatim>\<open>excludeTags\<close>, \<^verbatim>\<open>waitFor\<close> and \<^verbatim>\<open>mobile\<close>, all
  optional; and the fields of these names in the scrape schema have the same types and
  the same optionality.
\<close>

theorem scrapeOptions_same_shape:
  "\<exists>s c. field_schema search_schema ''scrapeOptions'' = Some s
       \<and> field_schema crawl_schema ''scrapeOptions'' = Some c
       \<and> shape_of s = shape_of c
       \<and> undescribed s = undescribed c
       \<and> (\<forall>v. zod_parse s v = zod_parse c v)
       \<and> is_optional s \<and> is_optional c
       \<and> declared_fields s = declared_fields c
       \<and> declared_fields s =
           [(''formats'', True,
               ZArray (ZEnum [''markdown'', ''html'', ''rawHtml'', ''links'', ''screenshot''])),
            (''onlyMainContent'', True, ZBoolean),
            (''includeTags'', True, ZArray (ZString None)),
            (''excludeTags'', True, ZArray (ZString None)),
            (''waitFor'', True, ZNumber),
            (''mobile'', True, ZBoolean)]
       \<and> filter (\<lambda>f. fst f \<in> set (map fst (declared_fields s))) (declared_fields scrape_schema) =
           declared_fields s"
proof -
  obtain s where s: "field_schema search_schema ''scrapeOptions'' = Some s"
    and s_def: "s = ZDescribe
       (ZOptional (ZObject
         [(''formats'',
             ZOptional (ZOptional
               (ZArray (ZEnum [''markdown'', ''html'', ''rawHtml'', ''links'', ''screenshot''])))),
          (''onlyMainContent'', ZOptional (ZOptional ZBoolean)),
          (''includeTags'', ZOptional (ZOptional (ZArray (ZString None)))),
          (''excludeTags'', ZOptional (ZOptional (ZArray (ZString None)))),
          (''waitFor'', ZOptional (ZOptional ZNumber)),
          (''mobile'', ZOptional (ZOptional ZBoolean))]))
       ''Options for scraping each search result''"
    using search_scrapeOptions by blast
  obtain c where c: "field_schema crawl_schema ''scrapeOptions'' = Some c"
    and c_def: "c = ZDescribe
       (ZOptional (ZObject
         [(''formats'',
             ZOptional (ZOptional
               (ZArray (ZEnum [''markdown'', ''html'', ''rawHtml'', ''links'', ''screenshot''])))),
          (''onlyMainContent'', ZOptional (ZOptional ZBoolean)),
          (''includeTags'', ZOptional (ZOptional (ZArray (ZString None)))),
          (''excludeTags'', ZOptional (ZOptional (ZArray (ZString None)))),
          (''waitFor'', ZOptional (ZOptional ZNumber)),
          (''mobile'', ZOptional (ZOptional ZBoolean))]))
       ''Options for scraping each page during the crawl''"
    using crawl_scrapeOptions by blast
  have u: "undescribed s = undescribed c"
    by (simp add: s_def c_def)
  have sh: "shape_of s = shape_of c"
    by (simp add: s_def c_def)
  have p: "\<forall>v. zod_parse s v = zod_parse c v"
    using zod_parse_undescribed [of s] zod_parse_undescribed [of c] u by simp
  have o: "is_optional s \<and> is_optional c"
    by (simp add: s_def c_def)
  have fs: "declared_fields s =
           [(''formats'', True,
               ZArray (ZEnum [''markdown'', ''html'', ''rawHtml'', ''links'', ''screenshot''])),
            (''onlyMainContent'', True, ZBoolean),
            (''includeTags'', True, ZArray (ZString None)),
            (''excludeTags'', True, ZArray (ZString None)),
            (''waitFor'', True, ZNumber),
            (''mobile'', True, ZBoolean)]"
    unfolding s_def by (rule scrapeOptions_declared_fields)
  have fc: "declared_fields c = declared_fields s"
    unfolding fs unfolding c_def by (rule scrapeOptions_declared_fields)
  have sc: "filter (\<lambda>f. fst f \<in> set (map fst (declared_fields s))) (declared_fields scrape_schema) =
           declared_fields s"
    unfolding fs by (rule scrape_fields_filtered)
  from s c sh u p o fs fc sc show ?thesis
    by (intro exI [of _ s] exI [of _ c] conjI) simp_all
qed

text \<open>
  C10. The tool built for \<^verbatim>\<open>search\<close> rejects every argument whose \<^verbatim>\<open>query\<close> is
  the empty string: the schema does not parse it, the call throws before the handler
  runs and the state is unchanged, so no request is sent. Among all the strings the four
  schemas declare, \<^verbatim>\<open>query\<close> is the only one with a minimum length, and that
  minimum is 1.
\<close>

theorem search_query_min_length:
  assumes "toolType params = Some ''search''"
    and "get_prop input ''query'' = Some (JStr [])"
  shows "(\<exists>t. fst (supplyData rt this params st0) = Inr t
            \<and> zod_parse (tool_schema t) (Some (JObj input)) = Inl ZodError
            \<and> tool_call t (JObj input) st = (Inl ToolInputParsingException, st))
     \<and> filter (\<lambda>f. snd f \<noteq> None)
          (concat (map string_fields [scrape_schema, map_schema, search_schema, crawl_schema])) =
        [([''query''], Some 1)]"
proof -
  have rej: "zod_parse search_schema (Some (JObj input)) = Inl ZodError"
    using assms(2) by (simp add: search_schema_def)
  have t: "fst (supplyData rt this params st0) =
      Inr \<lparr>tool_name = ''firecrawl_search'',
           tool_description = js_or (getNodeParameter (description params) []) search_description,
           tool_schema = search_schema,
           tool_func = createToolHandler rt this ''search''\<rparr>"
    using assms(1) by (simp add: supplyData_def getNodeParameter_def Let_def)
  have mins: "filter (\<lambda>f. snd f \<noteq> None)
          (concat (map string_fields [scrape_schema, map_schema, search_schema, crawl_schema])) =
        [([''query''], Some 1)]"
    by (simp add: search_schema_def crawl_schema_def scrape_schema_def map_schema_def)
  show ?thesis
    using rej t mins by (simp add: tool_call_def)
qed

text \<open>The theorem at a search with an empty query and a limit.\<close>

theorem search_query_min_length_witness:
  "get_prop [(''query'', JStr []), (''limit'', JNum (Finite False 5 0))] ''query'' = Some (JStr [])
   \<and> map_sum id (\<lambda>t. tool_call t (JObj [(''query'', JStr []), (''limit'', JNum (Finite False 5 0))]) initial_state)
        (fst (supplyData example_runtime (stub_host (Inr example_credentials) (Inr JNull))
           \<lparr>toolType = Some ''search'', description = None\<rparr> initial_state)) =
       Inr (Inl ToolInputParsingException, initial_state)"
  using search_query_min_length [of "\<lparr>toolType = Some ''search'', description = None\<rparr>"
      "[(''query'', JStr []), (''limit'', JNum (Finite False 5 0))]"
      example_runtime "stub_host (Inr example_credentials) (Inr JNull)" initial_state initial_state]
  by (auto simp add: get_prop_def)

end
